theory Spec2Isabelle
  imports Main "HOL-Library.Sublist" "HOL-Library.Multiset"
begin

section \<open>Strings and JavaScript values as the routes observe them\<close>

text \<open>
  A JavaScript string is modelled by the bytes of its UTF-8 encoding (\<^typ>\<open>string\<close>).
  A value of type \<open>string | undefined\<close> is a \<^typ>\<open>string option\<close>; in a condition
  it counts as true exactly when it is present and not the empty string.
\<close>

definition truthy :: "string option \<Rightarrow> bool" where
  "truthy v = (case v of None \<Rightarrow> False | Some s \<Rightarrow> s \<noteq> [])"

text \<open>\<open>a || d\<close> for an optional string \<open>a\<close> and a string \<open>d\<close>.\<close>

definition or_else :: "string option \<Rightarrow> string \<Rightarrow> string" where
  "or_else v d = (case v of None \<Rightarrow> d | Some s \<Rightarrow> if s \<noteq> [] then s else d)"

text \<open>\<open>xs?.[i]\<close>: undefined when the array is absent or the index is out of range.\<close>

definition js_index :: "'a list option \<Rightarrow> nat \<Rightarrow> 'a option" where
  "js_index xs i =
     (case xs of None \<Rightarrow> None | Some l \<Rightarrow> if i < length l then Some (l ! i) else None)"

text \<open>\<open>s.startsWith(p)\<close>.\<close>

fun startsWith :: "string \<Rightarrow> string \<Rightarrow> bool" where
  "startsWith s [] = True"
| "startsWith [] (p # ps) = False"
| "startsWith (c # cs) (p # ps) = (c = p \<and> startsWith cs ps)"

text \<open>A number in a template literal: its decimal digits.\<close>

definition digit_char :: "nat \<Rightarrow> char" where
  "digit_char d = ''0123456789'' ! d"

function decimal_digits :: "nat \<Rightarrow> string \<Rightarrow> string" where
  "decimal_digits n acc =
     (if 10 \<le> n then decimal_digits (n div 10) (digit_char (n mod 10) # acc)
      else digit_char n # acc)"
  by pat_completeness auto
termination
  by (relation "measure fst") auto

declare decimal_digits.simps [simp del]

definition nat_toString :: "nat \<Rightarrow> string" where
  "nat_toString n = decimal_digits n []"


subsection \<open>The values a synthesis call returns\<close>

text \<open>
  The route looks at a value of the synthesis service in two ways only: whether it is
  truthy, and what \<open>String(v)\<close> gives. \<open>JsVal t s\<close> is a value with these two
  observations; an absent field or element is \<open>undefined_val\<close>.
\<close>

datatype jsval = JsVal (is_truthy: bool) (to_String: string)

definition undefined_val :: jsval where
  "undefined_val = JsVal False ''undefined''"

text \<open>\<open>a || b\<close> on values.\<close>

definition js_or :: "jsval \<Rightarrow> jsval \<Rightarrow> jsval" where
  "js_or a b = (if is_truthy a then a else b)"

text \<open>
  The shapes the route tells apart: an array, a bare string, a non-null object (given by
  its \<open>url\<close>, \<open>output\<close> and \<open>[0]\<close> properties), and anything else (given by
  \<open>typeof\<close>; \<open>null\<close> is \<open>OutOther ''object''\<close>).
\<close>

datatype ReplicateOutput =
    OutArray "jsval list"
  | OutString string
  | OutObject jsval jsval jsval
  | OutOther string

text \<open>What \<open>JSON.parse\<close> returns. Numbers keep their literal text; nothing reads them.\<close>

datatype json =
    JNull
  | JBool bool
  | JNumber string
  | JString string
  | JArray "json list"
  | JObject "(string \<times> json) list"

section \<open>Requests, results and stored rows\<close>

datatype mode = text2img | img2img | preview | batch

datatype style = pencil | pen

text \<open>
  \<open>ConvertRequest\<close>, after the defaults of the destructuring (\<open>mode = 'text2img'\<close>,
  \<open>monochromeOnly = true\<close>, \<open>saveToDb = false\<close>) have been applied.
\<close>

record ConvertRequest =
  id_req :: "string option"
  images :: "string list option"
  prompts :: "string list option"
  mode :: mode
  style :: "style option"
  theme :: "string option"
  referenceImage :: "string option"
  monochromeOnly :: bool
  saveToDb :: bool
  userId :: "string option"
  character :: "string option"
  emotionNames :: "string list option"

text \<open>One entry of \<open>results\<close>. A property the entry does not have is \<open>None\<close>.\<close>

record ItemResult =
  index :: nat
  prompt :: "string option"
  originalDataUrl :: "string option"
  generatedUrl :: "string option"
  transparentDataUrl :: "string option"
  success :: bool
  error :: "string option"

text \<open>
  The input of a synthesis call. The rendering parameters that are the same constants in
  every call (\<open>model\<close>, \<open>go_fast\<close>, \<open>lora_scale\<close>, ...) are left out;
  \<open>prompt_strength\<close> is in hundredths (25 for 0.25, 30 for 0.3).
\<close>

record ReplicateInput =
  input_prompt :: string
  input_image :: "string option"
  prompt_strength :: "nat option"

record series_metadata =
  meta_style :: style
  generation_method :: string
  created_from :: string
  meta_monochromeOnly :: bool

record series_row =
  user_id :: string
  series_theme :: string
  series_title :: string
  character_description :: string
  num_scenes :: nat
  categories :: "string list"
  metadata :: series_metadata

record scene_record =
  series_id :: string
  scene_number :: nat
  title :: string
  narrative :: string
  scene_prompt :: string
  image_url :: string
  original_style :: style
  scene_monochromeOnly :: bool

section \<open>The world outside the route\<close>

text \<open>
  Every call that leaves the process is recorded in \<open>trace\<close>, newest first. The tables
  and the bucket hold what the calls that succeeded have written. \<open>translationCache\<close>
  is the module-level \<open>Map\<close>: it lives as long as the process.
\<close>

datatype event =
    GeminiCall string
  | ReplicateCall string ReplicateInput
  | Sleep nat
  | FetchImage string
  | SeriesInsert series_row
  | StorageUpload string string
  | ScenesInsert "scene_record list"

record world =
  trace :: "event list"
  translationCache :: "string \<rightharpoonup> string"
  emoticon_series :: "(string \<times> series_row) list"
  emoticon_scenes :: "scene_record list"
  images_bucket :: "string \<rightharpoonup> string"

definition emit :: "event \<Rightarrow> world \<Rightarrow> world" where
  "emit e w = w\<lparr>trace := e # trace w\<rparr>"

text \<open>Logical time: the number of events so far.\<close>

definition now :: "world \<Rightarrow> nat" where
  "now w = length (trace w)"

text \<open>
  The services, as functions the route cannot see into. An answer may depend on the time
  of the call, so the same question can be answered differently later. \<open>Inl\<close> is a
  thrown error with its message.
  \<^item> \<open>generateContent t p\<close> is \<open>result.response.text().trim()\<close> for the prompt \<open>p\<close>;
  \<^item> \<open>lora_models_select\<close> is \<open>data.replicate_model_name\<close>, \<open>None\<close> when the query
    gave an error or no such field;
  \<^item> \<open>sharp_flatten_png\<close> and \<open>fetch_resize_png\<close> give the base64 text of the PNG;
  \<^item> \<open>storage_upload\<close> gives \<open>Inr (Some e)\<close> for a returned \<open>uploadError\<close>;
  \<^item> \<open>series_insert\<close> gives \<open>Inl\<close> for \<open>seriesError\<close>, else the new row's id;
  \<^item> \<open>scenes_insert\<close> is true when \<open>scenesError\<close> is set.
\<close>

record env =
  REPLICATE_API_TOKEN :: bool
  SUPABASE_ENV :: bool
  lora_models_select :: "string \<Rightarrow> string option"
  generateContent :: "nat \<Rightarrow> string \<Rightarrow> string + string"
  JSON_parse :: "string \<Rightarrow> json option"
  replicate_run :: "nat \<Rightarrow> string \<Rightarrow> ReplicateInput \<Rightarrow> string + ReplicateOutput"
  sharp_flatten_png :: "string \<Rightarrow> string option"
  fetch_resize_png :: "nat \<Rightarrow> string \<Rightarrow> string + string"
  series_insert :: "nat \<Rightarrow> series_row \<Rightarrow> string + string"
  storage_upload :: "nat \<Rightarrow> string \<Rightarrow> string \<Rightarrow> string + string option"
  getPublicUrl :: "string \<Rightarrow> string"
  scenes_insert :: "nat \<Rightarrow> scene_record list \<Rightarrow> bool"

section \<open>Translation cache\<close>

definition translate_prompt :: "string \<Rightarrow> string" where
  "translate_prompt text =
     ''Translate this character description to English for AI image generation.'' @ [CHR 0x0A] @
     ''Keep it concise and clear. Only output the English translation, nothing '' @ ''else.'' @
     [CHR 0x0A, CHR 0x0A] @ ''Korean: '' @
     text @
     [CHR 0x0A] @ ''English:''"

text \<open>The \<open>try\<close> block of \<open>translateToEnglish\<close>, entered on a cache miss.\<close>

definition translate_try :: "env \<Rightarrow> string \<Rightarrow> world \<Rightarrow> (string + string) \<times> world" where
  "translate_try E text w =
     (let p = translate_prompt text; w1 = emit (GeminiCall p) w in
      case generateContent E (now w) p of
        Inl err \<Rightarrow> (Inl err, w1)
      | Inr translation \<Rightarrow>
          (Inr translation,
           w1\<lparr>translationCache := (translationCache w1)(text \<mapsto> translation)\<rparr>))"

definition translateToEnglish :: "env \<Rightarrow> string \<Rightarrow> world \<Rightarrow> string \<times> world" where
  "translateToEnglish E text w =
     (case translationCache w text of
        Some cached \<Rightarrow> (cached, w)
      | None \<Rightarrow>
          (case translate_try E text w of
             (Inl err, w1) \<Rightarrow> (text, w1)
           | (Inr translation, w1) \<Rightarrow> (translation, w1)))"

section \<open>Category classifier\<close>

definition VALID_CATEGORIES :: "string list" where
  "VALID_CATEGORIES =
     [''cute'', ''daily'', ''work'', ''love'', ''funny'', ''animal'', ''food'', ''seasonal'']"

definition category_glosses :: string where
  "category_glosses =
     ''Available categories:'' @ [CHR 0x0A] @ ''- cute: '' @
     [CHR 0xEA, CHR 0xB7, CHR 0x80, CHR 0xEC, CHR 0x97, CHR 0xAC, CHR 0xEC, CHR 0x9A, CHR 0xB4] @
     '', '' @
     [CHR 0xEC, CHR 0x82, CHR 0xAC, CHR 0xEB, CHR 0x9E, CHR 0x91, CHR 0xEC, CHR 0x8A, CHR 0xA4] @
     [CHR 0xEB, CHR 0x9F, CHR 0xAC, CHR 0xEC, CHR 0x9A, CHR 0xB4] @ '' '' @
     [CHR 0xEC, CHR 0xBA, CHR 0x90, CHR 0xEB, CHR 0xA6, CHR 0xAD, CHR 0xED, CHR 0x84, CHR 0xB0] @
     [CHR 0x0A] @ ''- daily: '' @
     [CHR 0xEC, CHR 0x9D, CHR 0xBC, CHR 0xEC, CHR 0x83, CHR 0x81] @ '', '' @
     [CHR 0xEC, CHR 0x83, CHR 0x9D, CHR 0xED, CHR 0x99, CHR 0x9C] @ '', '' @
     [CHR 0xEB, CHR 0xB0, CHR 0xB1, CHR 0xEC, CHR 0x88, CHR 0x98] @ '', '' @
     [CHR 0xEC, CHR 0xA7, CHR 0x91, CHR 0xEC, CHR 0x88, CHR 0x9C, CHR 0xEC, CHR 0x9D, CHR 0xB4] @
     '', '' @
     [CHR 0xEC, CHR 0xA7, CHR 0x91, CHR 0xEB, CHR 0x8F, CHR 0x8C, CHR 0xEC, CHR 0x9D, CHR 0xB4] @
     '', '' @ [CHR 0xED, CHR 0x9C, CHR 0xB4, CHR 0xEC, CHR 0x8B, CHR 0x9D, CHR 0x0A] @
     ''- work: '' @ [CHR 0xEC, CHR 0xA7, CHR 0x81, CHR 0xEC, CHR 0x9E, CHR 0xA5] @ '', '' @
     [CHR 0xED, CHR 0x9A, CHR 0x8C, CHR 0xEC, CHR 0x82, CHR 0xAC] @ '', '' @
     [CHR 0xEC, CHR 0x97, CHR 0x85, CHR 0xEB, CHR 0xAC, CHR 0xB4] @ '', '' @
     [CHR 0xEC, CHR 0xB6, CHR 0x9C, CHR 0xEA, CHR 0xB7, CHR 0xBC] @ '', '' @
     [CHR 0xED, CHR 0x87, CHR 0xB4, CHR 0xEA, CHR 0xB7, CHR 0xBC, CHR 0x0A] @ ''- love: '' @
     [CHR 0xEC, CHR 0x97, CHR 0xB0, CHR 0xEC, CHR 0x95, CHR 0xA0] @ '', '' @
     [CHR 0xEC, CHR 0x82, CHR 0xAC, CHR 0xEB, CHR 0x9E, CHR 0x91] @ '', '' @
     [CHR 0xEC, CHR 0xBB, CHR 0xA4, CHR 0xED, CHR 0x94, CHR 0x8C] @ '', '' @
     [CHR 0xEC, CHR 0x8D, CHR 0xB8, CHR 0x0A] @ ''- funny: '' @
     [CHR 0xEC, CHR 0x9B, CHR 0x83, CHR 0xEA, CHR 0xB8, CHR 0xB4] @ '', '' @
     [CHR 0xEC, CHR 0x9C, CHR 0xA0, CHR 0xEB, CHR 0xA8, CHR 0xB8] @ '', '' @
     [CHR 0xEA, CHR 0xB0, CHR 0x9C, CHR 0xEA, CHR 0xB7, CHR 0xB8, CHR 0x0A] @
     ''- animal: '' @ [CHR 0xEB, CHR 0x8F, CHR 0x99, CHR 0xEB, CHR 0xAC, CHR 0xBC] @ '' '' @
     [CHR 0xEC, CHR 0xBA, CHR 0x90, CHR 0xEB, CHR 0xA6, CHR 0xAD, CHR 0xED, CHR 0x84, CHR 0xB0] @
     '' ('' @
     [CHR 0xEA, CHR 0xB3, CHR 0xA0, CHR 0xEC, CHR 0x96, CHR 0x91, CHR 0xEC, CHR 0x9D, CHR 0xB4] @
     '', '' @
     [CHR 0xEA, CHR 0xB0, CHR 0x95, CHR 0xEC, CHR 0x95, CHR 0x84, CHR 0xEC, CHR 0xA7, CHR 0x80] @
     '', '' @ [CHR 0xED, CHR 0x86, CHR 0xA0, CHR 0xEB, CHR 0x81, CHR 0xBC] @ '' '' @
     [CHR 0xEB, CHR 0x93, CHR 0xB1] @ '')'' @ [CHR 0x0A] @ ''- food: '' @
     [CHR 0xEC, CHR 0x9D, CHR 0x8C, CHR 0xEC, CHR 0x8B, CHR 0x9D] @ '', '' @
     [CHR 0xEB, CHR 0xA8, CHR 0xB9, CHR 0xEB, CHR 0xB0, CHR 0xA9] @ '', '' @
     [CHR 0xEC, CHR 0x9A, CHR 0x94, CHR 0xEB, CHR 0xA6, CHR 0xAC, CHR 0x0A] @
     ''- seasonal: '' @ [CHR 0xEA, CHR 0xB3, CHR 0x84, CHR 0xEC, CHR 0xA0, CHR 0x88] @
     '', '' @ [CHR 0xEB, CHR 0xAA, CHR 0x85, CHR 0xEC, CHR 0xA0, CHR 0x88] @ '', '' @
     [CHR 0xED, CHR 0x81, CHR 0xAC, CHR 0xEB, CHR 0xA6, CHR 0xAC, CHR 0xEC, CHR 0x8A, CHR 0xA4] @
     [CHR 0xEB, CHR 0xA7, CHR 0x88, CHR 0xEC, CHR 0x8A, CHR 0xA4] @ '', '' @
     [CHR 0xEC, CHR 0x84, CHR 0xA4, CHR 0xEB, CHR 0x82, CHR 0xA0] @ '', '' @
     [CHR 0xEC, CHR 0xB6, CHR 0x94, CHR 0xEC, CHR 0x84, CHR 0x9D] @ '', '' @
     [CHR 0xEC, CHR 0x97, CHR 0xAC, CHR 0xEB, CHR 0xA6, CHR 0x84] @ '', '' @
     [CHR 0xEA, CHR 0xB2, CHR 0xA8, CHR 0xEC, CHR 0x9A, CHR 0xB8, CHR 0x0A, CHR 0x0A]"

definition classify_prompt :: "string \<Rightarrow> string \<Rightarrow> string" where
  "classify_prompt th ch =
     ''Classify this emoticon theme and character into categories.'' @ [CHR 0x0A, CHR 0x0A] @
     ''Theme: '' @
     th @
     [CHR 0x0A] @ ''Character: '' @
     ch @
     [CHR 0x0A, CHR 0x0A] @
     category_glosses @
     ''Return ONLY a JSON array of matching category slugs (1-3 categories).'' @ [CHR 0x0A] @
     ''Example: ['' @ [CHR 0x22] @ ''cute'' @ [CHR 0x22] @ '', '' @ [CHR 0x22] @ ''animal'' @
     [CHR 0x22] @ '']'' @ [CHR 0x0A, CHR 0x0A] @ ''Categories:''"

text \<open>
  \<open>text.match(/\[.*\]/)\<close>. The dot matches anything but a line terminator (LF, CR,
  U+2028, U+2029), and the star is greedy: the match starts at the first \<open>[\<close> that has a
  \<open>]\<close> after it on its line, and ends at the last \<open>]\<close> of that line.
\<close>

definition at_line_terminator :: "string \<Rightarrow> bool" where
  "at_line_terminator s =
     (startsWith s [CHR 0x0A] \<or> startsWith s [CHR 0x0D] \<or>
      startsWith s [CHR 0xE2, CHR 0x80, CHR 0xA8] \<or> startsWith s [CHR 0xE2, CHR 0x80, CHR 0xA9])"

fun rest_of_line :: "string \<Rightarrow> string" where
  "rest_of_line [] = []"
| "rest_of_line (c # cs) = (if at_line_terminator (c # cs) then [] else c # rest_of_line cs)"

definition upto_last_bracket :: "string \<Rightarrow> string option" where
  "upto_last_bracket s =
     (if CHR '']'' \<in> set s then Some (rev (dropWhile (\<lambda>c. c \<noteq> CHR '']'') (rev s))) else None)"

fun match_array :: "string \<Rightarrow> string option" where
  "match_array [] = None"
| "match_array (c # cs) =
     (if c = CHR ''[''
      then (case upto_last_bracket (rest_of_line cs) of
              Some m \<Rightarrow> Some (c # m)
            | None \<Rightarrow> match_array cs)
      else match_array cs)"

text \<open>\<open>categories.filter(c => VALID_CATEGORIES.includes(c))\<close>: only a string can be included.\<close>

fun valid_only :: "json list \<Rightarrow> string list" where
  "valid_only [] = []"
| "valid_only (JString s # cs) =
     (if s \<in> set VALID_CATEGORIES then s # valid_only cs else valid_only cs)"
| "valid_only (c # cs) = valid_only cs"

text \<open>
  What can be thrown in the \<open>try\<close> block of \<open>classifyCategories\<close>: the error of the
  call, the \<open>SyntaxError\<close> of \<open>JSON.parse\<close> on text that is not JSON, and the
  \<open>TypeError\<close> of \<open>.filter\<close> on a parsed value that is not an array.
\<close>

datatype classify_failure = CallFailed string | JSON_SyntaxError | FilterTypeError

definition classify_try ::
  "env \<Rightarrow> string \<Rightarrow> string \<Rightarrow> world \<Rightarrow> (classify_failure + string list) \<times> world" where
  "classify_try E th ch w =
     (let p = classify_prompt th ch; w1 = emit (GeminiCall p) w in
      case generateContent E (now w) p of
        Inl err \<Rightarrow> (Inl (CallFailed err), w1)
      | Inr text \<Rightarrow>
          (case match_array text of
             Some m \<Rightarrow>
               (case JSON_parse E m of
                  None \<Rightarrow> (Inl JSON_SyntaxError, w1)
                | Some (JArray cs) \<Rightarrow> (Inr (valid_only cs), w1)
                | Some _ \<Rightarrow> (Inl FilterTypeError, w1))
           | None \<Rightarrow> (Inr [''daily''], w1)))"

definition classifyCategories :: "env \<Rightarrow> string \<Rightarrow> string \<Rightarrow> world \<Rightarrow> string list \<times> world" where
  "classifyCategories E th ch w =
     (case classify_try E th ch w of
        (Inl err, w1) \<Rightarrow> ([''daily''], w1)
      | (Inr cs, w1) \<Rightarrow> (cs, w1))"

section \<open>Prompt compiler\<close>

fun STYLE_PROMPTS :: "style \<Rightarrow> string" where
  "STYLE_PROMPTS pencil =
     ''soft pencil sketch, light graphite strokes, gentle pencil shading, delicate '' @
     ''line art, thin sketchy lines, subtle pencil texture, hand-drawn with soft '' @
     ''strokes, loose pencil drawing, light sketchy style, faint outlines''"
| "STYLE_PROMPTS pen =
     ''VERY BOLD thick black marker pen, EXTREMELY STRONG ink outlines, HEAVY '' @
     ''black borders, THICK chunky pen strokes, bold cartoon style, SOLID black '' @
     ''lines, confident bold ink drawing, thick marker technique, HEAVY pen '' @
     ''pressure, STRONG contrast, clean bold style''"

definition monochrome_clause :: string where
  "monochrome_clause =
     ''black and white only, grayscale shading, NO colors, monochrome line art, '' @
     ''pencil hatching for shadows, simple gray tones, NO blush, NO blushing''"

definition color_clause :: string where
  "color_clause =
     ''colorful, vibrant colors, soft pastel tones''"

text \<open>\<open>fullPrompt\<close> of the text-to-image branch.\<close>

definition fullPrompt :: "string \<Rightarrow> string \<Rightarrow> string \<Rightarrow> string" where
  "fullPrompt finalPrompt stylePrefix colorPrompt =
     finalPrompt @
     '', '' @
     stylePrefix @
     ''strong black outlines, bold black borders, thick black contour lines, clear '' @
     ''black edges, '' @
     colorPrompt @
     '', chibi proportions with slightly bigger head, compact body, very short '' @
     ''stubby limbs, small arms and legs, NO tall body, NO long limbs, asymmetric '' @
     ''wonky proportions, crooked uneven features, lopsided asymmetric face, '' @
     ''simple flat dash eyes (- -) or simple dot eyes ('' @ [CHR 0xE2, CHR 0x80, CHR 0xA2] @
     '' '' @ [CHR 0xE2, CHR 0x80, CHR 0xA2] @
     ''), NO round eyes, NO circular pupils, NO eyeballs, NO shiny eyes, '' @
     ''absolutely NO long tail, short stubby tail only or no tail, imperfect '' @
     ''hand-drawn shapes, loose strokes, white background''"

text \<open>\<open>stylePrompt\<close> of the image-to-image branch: two templates, chosen by whether
  \<open>finalPrompt\<close> is empty.\<close>

definition stylePrompt :: "string \<Rightarrow> string \<Rightarrow> string \<Rightarrow> string" where
  "stylePrompt finalPrompt stylePrefix colorPromptImg =
     (if finalPrompt \<noteq> []
      then finalPrompt @
           '', '' @
           stylePrefix @
           ''strong black outlines, bold black borders, thick black contour lines, clear '' @
           ''black edges, '' @
           colorPromptImg @
           '', chibi proportions with slightly bigger head, compact body, very short '' @
           ''stubby limbs, small arms and legs, NO tall body, NO long limbs, with small '' @
           ''simple flat eyes (NO sparkling or shining eyes, NO round pupils), '' @
           ''asymmetric crooked face shape, wonky irregular proportions, imperfect '' @
           ''shapes, casual drawing, loose strokes, absolutely NO long tail, short '' @
           ''stubby tail only or no tail, white background''
      else stylePrefix @
           ''strong black outlines, bold black borders, thick black contour lines, clear '' @
           ''black edges, '' @
           colorPromptImg @
           '', chibi proportions with slightly bigger head, compact body, very short '' @
           ''stubby limbs, small arms and legs, NO tall body, NO long limbs, with small '' @
           ''simple flat eyes (NO sparkling or shining eyes, NO round pupils), '' @
           ''asymmetric crooked face shape, wonky irregular proportions, imperfect '' @
           ''shapes, casual drawing, loose strokes, white background'')"

definition stylePrefix_text2img :: "style option \<Rightarrow> string" where
  "stylePrefix_text2img st =
     (case st of
        Some s \<Rightarrow> STYLE_PROMPTS s @ '', ''
      | None \<Rightarrow>
          ''hand-drawn sketch with marker pen strokes, pencil texture, rough line art '' @
          ''style, thick uneven marker lines, casual pencil shading, sketchy '' @
          ''stroke-based drawing, '')"

definition stylePrefix_img2img :: "style option \<Rightarrow> string" where
  "stylePrefix_img2img st =
     (case st of
        Some s \<Rightarrow> STYLE_PROMPTS s @ '', ''
      | None \<Rightarrow> ''rough doodle sketch, messy hand-drawn lines, sketchy unpolished style, '')"

definition colorPrompt :: "bool \<Rightarrow> string" where
  "colorPrompt monochrome = (if monochrome then monochrome_clause else color_clause)"

text \<open>
  The non-null assertions \<open>prompts![i]\<close> and \<open>images![i]\<close> are \<open>the ... ! i\<close>: the
  validation of \<open>POST\<close> makes the list present and the loop keeps \<open>i\<close> below its length.
\<close>

definition text2img_input :: "env \<Rightarrow> ConvertRequest \<Rightarrow> nat \<Rightarrow> world \<Rightarrow> ReplicateInput \<times> world" where
  "text2img_input E req i w =
     (let userPrompt = the (prompts req) ! i;
          (translatedPrompt, w1) = translateToEnglish E userPrompt w;
          (finalPrompt, w2) =
            (if truthy (theme req) \<and> mode req = batch
             then (let (translatedTheme, w') = translateToEnglish E (the (theme req)) w1
                   in (translatedPrompt @ '', in context of '' @ translatedTheme, w'))
             else (translatedPrompt, w1));
          stylePrefix = stylePrefix_text2img (style req)
      in (\<lparr>input_prompt = fullPrompt finalPrompt stylePrefix (colorPrompt (monochromeOnly req)),
           input_image = None, prompt_strength = None\<rparr>, w2))"

text \<open>\<open>dataUrl.replace(/^data:image\/\w+;base64,/, '')\<close>.\<close>

definition is_word_char :: "char \<Rightarrow> bool" where
  "is_word_char c =
     (c \<in> set ''ABCDEFGHIJKLMNOPQRSTUVWXYZabcdefghijklmnopqrstuvwxyz0123456789_'')"

definition strip_data_prefix :: "string \<Rightarrow> string" where
  "strip_data_prefix s =
     (if startsWith s ''data:image/''
      then (let r = drop 11 s; r' = dropWhile is_word_char r in
            if takeWhile is_word_char r \<noteq> [] \<and> startsWith r' '';base64,''
            then drop 8 r' else s)
      else s)"

text \<open>A failure of the conversion is caught inside the helper, which then returns its input.\<close>

definition convertTransparentToWhite :: "env \<Rightarrow> string \<Rightarrow> string" where
  "convertTransparentToWhite E dataUrl =
     (case sharp_flatten_png E (strip_data_prefix dataUrl) of
        Some processedBase64 \<Rightarrow> ''data:image/png;base64,'' @ processedBase64
      | None \<Rightarrow> dataUrl)"

definition img2img_input :: "env \<Rightarrow> ConvertRequest \<Rightarrow> nat \<Rightarrow> world \<Rightarrow> ReplicateInput \<times> world" where
  "img2img_input E req i w =
     (let imageDataUrl = the (images req) ! i;
          whiteBackgroundImage = convertTransparentToWhite E imageDataUrl;
          (finalPrompt, w2) =
            (if truthy (js_index (prompts req) i)
             then (let userPrompt = the (js_index (prompts req) i);
                       (translatedPrompt, w1) = translateToEnglish E userPrompt w
                   in if truthy (theme req)
                      then (let (translatedTheme, w') = translateToEnglish E (the (theme req)) w1
                            in (translatedPrompt @ '', in context of '' @ translatedTheme, w'))
                      else (translatedPrompt, w1))
             else ([], w));
          stylePrefix = stylePrefix_img2img (style req)
      in (\<lparr>input_prompt =
             stylePrompt finalPrompt stylePrefix (colorPrompt (monochromeOnly req)),
           input_image = Some whiteBackgroundImage, prompt_strength = Some 25\<rparr>, w2))"

section \<open>Two-stage synthesis\<close>

text \<open>Reading the image reference out of the first call's output; \<open>Inl\<close> is a thrown error.\<close>

definition extract_url :: "ReplicateOutput \<Rightarrow> string + string" where
  "extract_url output =
     (case output of
        OutArray xs \<Rightarrow> Inr (to_String (case xs of [] \<Rightarrow> undefined_val | x # _ \<Rightarrow> x))
      | OutString s \<Rightarrow> Inr s
      | OutObject u out z \<Rightarrow>
          (let urlField = js_or (js_or u out) z in
           if is_truthy urlField then Inr (to_String urlField)
           else Inl ''Cannot find URL in output object'')
      | OutOther ty \<Rightarrow> Inl (''Invalid output format: '' @ ty))"

definition step1 :: "env \<Rightarrow> string \<Rightarrow> ReplicateInput \<Rightarrow> world \<Rightarrow> (string + string) \<times> world" where
  "step1 E model inputParams w =
     (let w1 = emit (ReplicateCall model inputParams) w in
      case replicate_run E (now w) model inputParams of
        Inl err \<Rightarrow> (Inl err, w1)
      | Inr output \<Rightarrow>
          (case extract_url output of
             Inl err \<Rightarrow> (Inl err, w1)
           | Inr imageUrl \<Rightarrow>
               if \<not> startsWith imageUrl ''http''
               then (Inl ''Invalid URL returned from Replicate'', w1)
               else (Inr imageUrl, w1)))"

text \<open>
  Reading the second call's output. \<open>finalUrl\<close> starts as the first call's URL and is
  assigned only in the branches below.
\<close>

definition extract_step2 :: "string \<Rightarrow> ReplicateOutput \<Rightarrow> string" where
  "extract_step2 finalUrl step2Output =
     (case step2Output of
        OutArray xs \<Rightarrow> to_String (case xs of [] \<Rightarrow> undefined_val | x # _ \<Rightarrow> x)
      | OutString s \<Rightarrow> s
      | OutObject u out z \<Rightarrow>
          (let urlField = js_or (js_or u out) z in
           if is_truthy urlField then to_String urlField else finalUrl)
      | OutOther ty \<Rightarrow> finalUrl)"

definition step2 :: "env \<Rightarrow> string \<Rightarrow> ReplicateInput \<Rightarrow> string \<Rightarrow> world \<Rightarrow> (string + string) \<times> world" where
  "step2 E model inputParams imageUrl w =
     (let w1 = emit (Sleep 15000) w;
          input2 = \<lparr>input_prompt = input_prompt inputParams,
                    input_image = Some imageUrl, prompt_strength = Some 30\<rparr>;
          w2 = emit (ReplicateCall model input2) w1 in
      case replicate_run E (now w1) model input2 of
        Inl err \<Rightarrow> (Inl err, w2)
      | Inr step2Output \<Rightarrow> (Inr (extract_step2 imageUrl step2Output), w2))"

section \<open>Post-processor\<close>

text \<open>The inner \<open>try\<close>/\<open>catch\<close>: a failure leaves \<open>transparentDataUrl\<close> null.\<close>

definition png_convert :: "env \<Rightarrow> string \<Rightarrow> world \<Rightarrow> string option \<times> world" where
  "png_convert E convertedUrl w =
     (let w1 = emit (FetchImage convertedUrl) w in
      case fetch_resize_png E (now w) convertedUrl of
        Inl err \<Rightarrow> (None, w1)
      | Inr resized \<Rightarrow> (Some (''data:image/png;base64,'' @ resized), w1))"

section \<open>Rate-limited sequential executor\<close>

definition actualMode :: "mode \<Rightarrow> mode" where
  "actualMode m = (if m = preview \<or> m = batch then text2img else m)"

definition isText2Img :: "ConvertRequest \<Rightarrow> bool" where
  "isText2Img req = (actualMode (mode req) = text2img)"

definition isPreviewMode :: "ConvertRequest \<Rightarrow> bool" where
  "isPreviewMode req = (mode req = preview)"

text \<open>
  The \<open>try\<close> block of one iteration, in two parts; \<open>Inl\<close> is the message of the
  error thrown in it. First the synthesis, up to \<open>const convertedUrl = finalUrl\<close>.
\<close>

definition synthesize :: "env \<Rightarrow> ConvertRequest \<Rightarrow> string \<Rightarrow> nat \<Rightarrow> world \<Rightarrow> (string + string) \<times> world" where
  "synthesize E req model i w =
     (let (inputParams, w1) =
            (if isText2Img req then text2img_input E req i w else img2img_input E req i w) in
      case step1 E model inputParams w1 of
        (Inl err, w2) \<Rightarrow> (Inl err, w2)
      | (Inr imageUrl, w2) \<Rightarrow>
          (if isText2Img req \<and> \<not> isPreviewMode req
           then step2 E model inputParams imageUrl w2
           else (Inr imageUrl, w2)))"

text \<open>Then the conversion to PNG and the entry of \<open>results\<close>.\<close>

definition generate_try :: "env \<Rightarrow> ConvertRequest \<Rightarrow> string \<Rightarrow> nat \<Rightarrow> world \<Rightarrow> (string + ItemResult) \<times> world" where
  "generate_try E req model i w =
     (case synthesize E req model i w of
        (Inl err, w3) \<Rightarrow> (Inl err, w3)
      | (Inr convertedUrl, w3) \<Rightarrow>
          (let (dataUrl, w4) = png_convert E convertedUrl w3 in
           (Inr \<lparr>index = i,
                 prompt = (if isText2Img req then Some (the (prompts req) ! i) else None),
                 originalDataUrl =
                   (if isText2Img req then None else Some (the (images req) ! i)),
                 generatedUrl = Some convertedUrl,
                 transparentDataUrl = dataUrl,
                 success = True,
                 error = None\<rparr>, w4)))"

text \<open>One iteration with its \<open>catch\<close>: the item is recorded either way.\<close>

definition generate_item :: "env \<Rightarrow> ConvertRequest \<Rightarrow> string \<Rightarrow> nat \<Rightarrow> world \<Rightarrow> ItemResult \<times> world" where
  "generate_item E req model i w =
     (case generate_try E req model i w of
        (Inr r, w1) \<Rightarrow> (r, w1)
      | (Inl message, w1) \<Rightarrow>
          (\<lparr>index = i,
            prompt = (if isText2Img req then Some (the (prompts req) ! i) else None),
            originalDataUrl = (if isText2Img req then None else Some (the (images req) ! i)),
            generatedUrl = None,
            transparentDataUrl = None,
            success = False,
            error = Some message\<rparr>, w1))"

text \<open>The \<open>for\<close> loop over the items, with the wait before the next item.\<close>

function generate_loop ::
  "env \<Rightarrow> ConvertRequest \<Rightarrow> string \<Rightarrow> nat \<Rightarrow> nat \<Rightarrow> ItemResult list \<Rightarrow> world \<Rightarrow> ItemResult list \<times> world" where
  "generate_loop E req model itemCount i results w =
     (if i < itemCount
      then (let (r, w1) = generate_item E req model i w;
                w2 = (if i < itemCount - 1
                      then emit (Sleep (if isPreviewMode req then 2000 else 15000)) w1
                      else w1)
            in generate_loop E req model itemCount (i + 1) (results @ [r]) w2)
      else (results, w))"
  by pat_completeness auto
termination
  by (relation "measure (\<lambda>(E, req, model, itemCount, i, results, w). itemCount - i)") auto

declare generate_loop.simps [simp del]

section \<open>Persistence coordinator\<close>

text \<open>The name, the path and the record that one callback of the upload fan-out builds.\<close>

definition emotionName :: "ConvertRequest \<Rightarrow> ItemResult \<Rightarrow> nat \<Rightarrow> string" where
  "emotionName req result idx =
     or_else (js_index (emotionNames req) (index result))
       (or_else (js_index (prompts req) (index result)) (''Scene '' @ nat_toString (idx + 1)))"

definition scene_fileName :: "string \<Rightarrow> ItemResult \<Rightarrow> string" where
  "scene_fileName sid result =
     ''emoticons/'' @ sid @ ''/scene_'' @ nat_toString (index result) @ ''.png''"

definition scene_row :: "env \<Rightarrow> ConvertRequest \<Rightarrow> string \<Rightarrow> ItemResult \<Rightarrow> nat \<Rightarrow> scene_record" where
  "scene_row E req sid result idx =
     \<lparr>series_id = sid,
      scene_number = index result,
      title = emotionName req result idx,
      narrative = [],
      scene_prompt = the (character req) @ '' - '' @ emotionName req result idx,
      image_url = getPublicUrl E (scene_fileName sid result),
      original_style = (case style req of Some s \<Rightarrow> s | None \<Rightarrow> pen),
      scene_monochromeOnly = monochromeOnly req\<rparr>"

text \<open>
  The body of one callback: \<open>None\<close> when the item is skipped (a returned upload
  error, or an error thrown and caught in the callback). The buffer is given by its
  base64 text.
\<close>

definition save_scene ::
  "env \<Rightarrow> ConvertRequest \<Rightarrow> string \<Rightarrow> ItemResult \<Rightarrow> nat \<Rightarrow> world \<Rightarrow> scene_record option \<times> world" where
  "save_scene E req sid result idx w =
     (case transparentDataUrl result of
        None \<Rightarrow> (None, w)
      | Some dataUrl \<Rightarrow>
          (let buffer = strip_data_prefix dataUrl;
               fileName = scene_fileName sid result;
               w1 = emit (StorageUpload fileName buffer) w in
           case storage_upload E (now w) fileName buffer of
             Inl err \<Rightarrow> (None, w1)
           | Inr (Some uploadError) \<Rightarrow> (None, w1)
           | Inr None \<Rightarrow>
               (Some (scene_row E req sid result idx),
                w1\<lparr>images_bucket := (images_bucket w1)(fileName \<mapsto> buffer)\<rparr>)))"

text \<open>
  \<open>Promise.all\<close> over the callbacks. The uploads are started in the order of the list;
  the model also lets them finish in that order, so \<open>sceneRecords\<close> comes out in list
  order, where the route collects the records in the order the uploads finish.
\<close>

fun upload_all ::
  "env \<Rightarrow> ConvertRequest \<Rightarrow> string \<Rightarrow> (ItemResult \<times> nat) list \<Rightarrow> world \<Rightarrow> scene_record list \<times> world" where
  "upload_all E req sid [] w = ([], w)"
| "upload_all E req sid ((result, idx) # rest) w =
     (let (saved, w1) = save_scene E req sid result idx w;
          (sceneRecords, w2) = upload_all E req sid rest w1
      in ((case saved of None \<Rightarrow> sceneRecords | Some r \<Rightarrow> r # sceneRecords), w2))"

text \<open>The row of \<open>emoticon_series\<close> that the auto-save inserts.\<close>

definition new_series_row :: "ConvertRequest \<Rightarrow> string list \<Rightarrow> nat \<Rightarrow> series_row" where
  "new_series_row req cats successCount =
     \<lparr>user_id = the (userId req),
      series_theme = or_else (theme req) ''Custom Sketch'',
      series_title = the (character req) @ '' - '' @ or_else (theme req) ''Sketch'',
      character_description = the (character req),
      num_scenes = successCount,
      categories = cats,
      metadata =
        \<lparr>meta_style = (case style req of Some s \<Rightarrow> s | None \<Rightarrow> pen),
         generation_method = ''pro_flux_lora'',
         created_from = ''pro'',
         meta_monochromeOnly = monochromeOnly req\<rparr>\<rparr>"

text \<open>
  The \<open>try\<close> block of the auto-save with its \<open>catch\<close>: the value is \<open>savedSeriesId\<close>,
  which an error thrown before the assignment leaves null.
\<close>

definition auto_save ::
  "env \<Rightarrow> ConvertRequest \<Rightarrow> ItemResult list \<Rightarrow> nat \<Rightarrow> world \<Rightarrow> string option \<times> world" where
  "auto_save E req results successCount w =
     (if \<not> SUPABASE_ENV E then (None, w)
      else
        (let (cats, w1) = classifyCategories E (or_else (theme req) []) (the (character req)) w;
             row = new_series_row req cats successCount;
             w2 = emit (SeriesInsert row) w1 in
         case series_insert E (now w1) row of
           Inl seriesError \<Rightarrow> (None, w2)
         | Inr sid \<Rightarrow>
             (let w3 = w2\<lparr>emoticon_series := emoticon_series w2 @ [(sid, row)]\<rparr>;
                  successfulResults =
                    filter (\<lambda>r. success r \<and> truthy (transparentDataUrl r)) results;
                  (sceneRecords, w4) =
                    upload_all E req sid
                      (zip successfulResults [0..<length successfulResults]) w3;
                  w5 =
                    (if sceneRecords \<noteq> []
                     then (let w' = emit (ScenesInsert sceneRecords) w4 in
                           if scenes_insert E (now w4) sceneRecords then w'
                           else w'\<lparr>emoticon_scenes := emoticon_scenes w' @ sceneRecords\<rparr>)
                     else w4)
              in (Some sid, w5))))"

section \<open>The route\<close>

record BatchResult =
  response_mode :: mode
  results :: "ItemResult list"
  total :: nat
  successCount :: nat
  failedCount :: int
  savedSeriesId :: "string option"

datatype response = ErrorResponse nat string | BatchResponse BatchResult

definition resolveReplicateModelById :: "env \<Rightarrow> string \<Rightarrow> string + string" where
  "resolveReplicateModelById E i =
     (if \<not> SUPABASE_ENV E then Inl ''Missing Supabase environment variables''
      else (case lora_models_select E i of
              None \<Rightarrow> Inl (''Invalid model id: '' @ i)
            | Some name \<Rightarrow> if name = [] then Inl (''Invalid model id: '' @ i) else Inr name))"

text \<open>\<open>!xs || !Array.isArray(xs) || xs.length === 0\<close>.\<close>

definition missing :: "string list option \<Rightarrow> bool" where
  "missing xs = (case xs of None \<Rightarrow> True | Some l \<Rightarrow> l = [])"

definition POST :: "env \<Rightarrow> ConvertRequest \<Rightarrow> world \<Rightarrow> response \<times> world" where
  "POST E req w =
     (if mode req = img2img \<and> missing (images req)
      then (ErrorResponse 400
              ''Missing required field for img2img mode: images (array of base64 data URLs)'', w)
      else if (actualMode (mode req) = text2img \<or> isPreviewMode req \<or> mode req = batch)
              \<and> missing (prompts req)
      then (ErrorResponse 400
              (''Missing required field for text2img/preview/batch mode: '' @
               ''prompts (array of text prompts)''), w)
      else if \<not> REPLICATE_API_TOKEN E
      then (ErrorResponse 500 ''REPLICATE_API_TOKEN not configured'', w)
      else
        (let itemCount =
               (if isText2Img req then length (the (prompts req)) else length (the (images req)))
         in if \<not> truthy (id_req req)
            then (ErrorResponse 400 ''model id is required'', w)
            else
              (case resolveReplicateModelById E (the (id_req req)) of
                 Inl message \<Rightarrow>
                   (ErrorResponse 500
                      (if message \<noteq> [] then message else ''Failed to convert images''), w)
               | Inr model \<Rightarrow>
                   (let (rs, w1) = generate_loop E req model itemCount 0 [] w;
                        n = length (filter success rs);
                        (saved, w2) =
                          (if saveToDb req \<and> truthy (userId req) \<and> truthy (character req) \<and> n > 0
                           then auto_save E req rs n w1
                           else (None, w1))
                    in (BatchResponse
                          \<lparr>response_mode = mode req,
                           results = rs,
                           total = itemCount,
                           successCount = n,
                           failedCount = int itemCount - int n,
                           savedSeriesId = saved\<rparr>, w2)))))"

section \<open>The save route\<close>

text \<open>
  \<open>POST\<close> of \<open>emoticons/save\<close>, with its own services and its own trace (newest
  first). \<open>Date_now t\<close> is the clock read at logical time \<open>t\<close>, in milliseconds;
  \<open>atob\<close> gives \<open>Inl\<close> with the message where the decoder throws; the selects and
  writes give \<open>Inl\<close> where the client returns an error object.
\<close>

record ModifiedImage =
  sceneId :: string
  imageData :: string
  name :: "string option"





















section \<open>Reading traces and responses\<close>

fun is_ScenesInsert :: "event \<Rightarrow> bool" where
  "is_ScenesInsert (ScenesInsert rs) = True"
| "is_ScenesInsert e = False"

fun is_StorageUpload :: "event \<Rightarrow> bool" where
  "is_StorageUpload (StorageUpload f b) = True"
| "is_StorageUpload e = False"

text \<open>The prompts of the synthesis calls in a trace.\<close>

fun sent_prompts :: "event list \<Rightarrow> string list" where
  "sent_prompts [] = []"
| "sent_prompts (ReplicateCall m i # es) = input_prompt i # sent_prompts es"
| "sent_prompts (e # es) = sent_prompts es"



text \<open>The \<open>results\<close> of a response (none in an error response).\<close>

fun results_of :: "response \<Rightarrow> ItemResult list" where
  "results_of (BatchResponse b) = results b"
| "results_of (ErrorResponse s m) = []"

text \<open>The \<open>savedSeriesId\<close> of a response.\<close>

fun saved_id_of :: "response \<Rightarrow> string option" where
  "saved_id_of (BatchResponse b) = savedSeriesId b"
| "saved_id_of (ErrorResponse s m) = None"

text \<open>
  The text \<open>s\<close> is cached with the translation \<open>v\<close>, and the language service has
  been asked about it \<open>c\<close> times.
\<close>

definition cache_settled :: "string \<Rightarrow> string \<Rightarrow> nat \<Rightarrow> world \<Rightarrow> bool" where
  "cache_settled s v c w =
     (translationCache w s = Some v \<and>
      count_list (trace w) (GeminiCall (translate_prompt s)) = c)"

text \<open>The strings among the elements of a parsed array.\<close>

fun strings_of :: "json list \<Rightarrow> string list" where
  "strings_of [] = []"
| "strings_of (JString s # cs) = s # strings_of cs"
| "strings_of (c # cs) = strings_of cs"

text \<open>
  The upload of one result, started at time \<open>t\<close>, is answered without an error and
  without a throw.
\<close>

definition upload_succeeds :: "env \<Rightarrow> string \<Rightarrow> ItemResult \<Rightarrow> nat \<Rightarrow> bool" where
  "upload_succeeds E sid result t =
     (storage_upload E t (scene_fileName sid result)
        (strip_data_prefix (the (transparentDataUrl result))) = Inr None)"

section \<open>Scenarios\<close>

text \<open>
  Concrete worlds and requests on which the theorems below are instantiated. The
  services are scripted by the time of the call.
\<close>

definition world0 :: world where
  "world0 = \<lparr>trace = [], translationCache = Map.empty, emoticon_series = [],
             emoticon_scenes = [], images_bucket = Map.empty\<rparr>"

text \<open>The language service is down; every other service answers.\<close>

definition env_base :: env where
  "env_base =
     \<lparr>REPLICATE_API_TOKEN = True, SUPABASE_ENV = True,
      lora_models_select = (\<lambda>i. Some ''owner/model''),
      generateContent = (\<lambda>t p. Inl ''503 Service Unavailable''),
      JSON_parse = (\<lambda>s. None),
      replicate_run = (\<lambda>t m i. Inr (OutString ''https://replicate.delivery/out.webp'')),
      sharp_flatten_png = (\<lambda>s. None),
      fetch_resize_png = (\<lambda>t u. Inr ''iVBORw0KGgo=''),
      series_insert = (\<lambda>t r. Inr ''series-1''),
      storage_upload = (\<lambda>t f b. Inr None),
      getPublicUrl = (\<lambda>f. ''https://storage.example/'' @ f),
      scenes_insert = (\<lambda>t rs. False)\<rparr>"

text \<open>The language service translates.\<close>

definition env_translates :: env where
  "env_translates = env_base\<lparr>generateContent := (\<lambda>t p. Inr ''a white cat waving'')\<rparr>"

text \<open>
  The language service answers a classification with a list holding two tags of the
  taxonomy at time 0, with a list holding none at time 1, and with prose afterwards.
  \<open>JSON_parse\<close> is given on the two lists.
\<close>

definition tags_mixed :: string where
  "tags_mixed = ''['' @ [CHR 0x22] @ ''cute'' @ [CHR 0x22] @ '', '' @ [CHR 0x22] @ ''sleepy'' @ [CHR 0x22] @ '', '' @ [CHR 0x22] @ ''animal'' @ [CHR 0x22] @ '']''"

definition tags_unknown :: string where
  "tags_unknown = ''['' @ [CHR 0x22] @ ''sleepy'' @ [CHR 0x22] @ '', 3]''"

definition env_classifies :: env where
  "env_classifies = env_base
     \<lparr>generateContent :=
        (\<lambda>t p. if t = 0 then Inr (''Categories: '' @ tags_mixed)
               else if t = 1 then Inr tags_unknown
               else Inr ''cute and animal''),
      JSON_parse :=
        (\<lambda>s. if s = tags_mixed
              then Some (JArray [JString ''cute'', JString ''sleepy'', JString ''animal''])
              else if s = tags_unknown then Some (JArray [JString ''sleepy'', JNumber ''3''])
              else None)\<rparr>"





text \<open>The second synthesis call of the second item (time 9) throws.\<close>

definition env_stage2_throws :: env where
  "env_stage2_throws = env_base
     \<lparr>replicate_run :=
        (\<lambda>t m i. if t = 9 then Inl ''Prediction failed''
                 else Inr (OutString ''https://replicate.delivery/out.webp''))\<rparr>"

text \<open>
  The first synthesis call returns a URL; the second returns \<open>null\<close>, or an empty array.
  In the second world only a URL that starts with \<open>http\<close> can be fetched.
\<close>

definition env_stage2_null :: env where
  "env_stage2_null = env_base
     \<lparr>replicate_run :=
        (\<lambda>t m i. case input_image i of
                   None \<Rightarrow> Inr (OutString ''https://replicate.delivery/stage1.webp'')
                 | Some u \<Rightarrow> Inr (OutOther ''object''))\<rparr>"

definition env_stage2_empty :: env where
  "env_stage2_empty = env_base
     \<lparr>replicate_run :=
        (\<lambda>t m i. case input_image i of
                   None \<Rightarrow> Inr (OutString ''https://replicate.delivery/stage1.webp'')
                 | Some u \<Rightarrow> Inr (OutArray [])),
      fetch_resize_png :=
        (\<lambda>t u. if startsWith u ''http'' then Inr ''iVBORw0KGgo=''
               else Inl ''Failed to parse URL'')\<rparr>"

text \<open>The image cannot be fetched.\<close>

definition env_fetch_down :: env where
  "env_fetch_down = env_base\<lparr>fetch_resize_png := (\<lambda>t u. Inl ''fetch failed'')\<rparr>"

text \<open>The insert into \<open>emoticon_series\<close> returns an error.\<close>

definition env_insert_fails :: env where
  "env_insert_fails = env_base\<lparr>series_insert := (\<lambda>t r. Inl ''permission denied'')\<rparr>"

text \<open>The bulk insert into \<open>emoticon_scenes\<close> returns an error.\<close>

definition env_bulk_fails :: env where
  "env_bulk_fails = env_base\<lparr>scenes_insert := (\<lambda>t rs. True)\<rparr>"

text \<open>
  Seven items in preview mode take the times 0 to 26, four calls an item, the fetch of
  item \<open>k\<close> at time \<open>4 * k + 2\<close>. The fetches of items 2 and 5 fail. The classification
  is at time 27, the insert of the series at 28, the five uploads at 29 to 33; the
  upload of item 3 (time 31) fails.
\<close>

definition env_property6 :: env where
  "env_property6 = env_base
     \<lparr>fetch_resize_png :=
        (\<lambda>t u. if t = 10 \<or> t = 22 then Inl ''fetch failed'' else Inr ''iVBORw0KGgo=''),
      storage_upload :=
        (\<lambda>t f b. if t = 31 then Inr (Some ''upload failed'') else Inr None)\<rparr>"

definition req_preview7 :: ConvertRequest where
  "req_preview7 =
     \<lparr>id_req = Some ''m1'', images = None,
      prompts = Some [''p0'', ''p1'', ''p2'', ''p3'', ''p4'', ''p5'', ''p6''],
      mode = preview, style = None, theme = None, referenceImage = None,
      monochromeOnly = True, saveToDb = True, userId = Some ''u1'',
      character = Some ''white cat'', emotionNames = None\<rparr>"

text \<open>What the loop records for an item of these preview requests.\<close>

definition preview_result :: "nat \<Rightarrow> string \<Rightarrow> bool \<Rightarrow> ItemResult" where
  "preview_result k p converted =
     \<lparr>index = k, prompt = Some p, originalDataUrl = None,
      generatedUrl = Some ''https://replicate.delivery/out.webp'',
      transparentDataUrl =
        (if converted then Some ''data:image/png;base64,iVBORw0KGgo='' else None),
      success = True, error = None\<rparr>"

definition req_preview1 :: ConvertRequest where
  "req_preview1 =
     \<lparr>id_req = Some ''m1'', images = None, prompts = Some [''wave''],
      mode = preview, style = None, theme = Some ''cafe'', referenceImage = None,
      monochromeOnly = True, saveToDb = True, userId = Some ''u1'',
      character = Some ''white cat'', emotionNames = None\<rparr>"

definition req_text3 :: ConvertRequest where
  "req_text3 =
     \<lparr>id_req = Some ''m1'', images = None, prompts = Some [''wave'', ''sit'', ''jump''],
      mode = text2img, style = Some pen, theme = Some ''cafe'', referenceImage = None,
      monochromeOnly = True, saveToDb = False, userId = None, character = None,
      emotionNames = None\<rparr>"

definition req_text1 :: ConvertRequest where
  "req_text1 =
     \<lparr>id_req = Some ''m1'', images = None, prompts = Some [''wave''],
      mode = text2img, style = None, theme = None, referenceImage = None,
      monochromeOnly = True, saveToDb = False, userId = None, character = None,
      emotionNames = None\<rparr>"

definition req_batch1 :: ConvertRequest where
  "req_batch1 = req_text1\<lparr>mode := batch, theme := Some ''cafe''\<rparr>"

definition req_img1 :: ConvertRequest where
  "req_img1 =
     \<lparr>id_req = Some ''m1'', images = Some [''data:image/png;base64,AAAA''],
      prompts = Some [''wave''], mode = img2img, style = None, theme = Some ''cafe'',
      referenceImage = None, monochromeOnly = True, saveToDb = False, userId = None,
      character = None, emotionNames = None\<rparr>"



section \<open>Auxiliary facts\<close>

lemma trace_emit [simp]: "trace (emit e w) = e # trace w"
  by (simp add: emit_def)

lemma fields_emit [simp]:
  "translationCache (emit e w) = translationCache w"
  "emoticon_series (emit e w) = emoticon_series w"
  "emoticon_scenes (emit e w) = emoticon_scenes w"
  "images_bucket (emit e w) = images_bucket w"
  by (simp_all add: emit_def)

lemma now_emit [simp]: "now (emit e w) = Suc (now w)"
  by (simp add: emit_def now_def)

lemma now_update [simp]:
  "now (w\<lparr>images_bucket := b\<rparr>) = now w"
  "now (w\<lparr>emoticon_series := s\<rparr>) = now w"
  "now (w\<lparr>emoticon_scenes := c\<rparr>) = now w"
  "now (w\<lparr>translationCache := m\<rparr>) = now w"
  by (simp_all add: now_def)

lemma now_world0: "now world0 = 0"
  by (simp add: now_def world0_def)

text \<open>The definitions that running one item on a concrete world unfolds.\<close>

lemmas item_defs =
  generate_item_def generate_try_def synthesize_def text2img_input_def img2img_input_def
  translateToEnglish_def translate_try_def step1_def step2_def extract_url_def
  extract_step2_def png_convert_def isText2Img_def isPreviewMode_def actualMode_def
  Let_def truthy_def js_or_def undefined_val_def js_index_def emit_def now_def

lemmas save_defs =
  auto_save_def classifyCategories_def classify_try_def save_scene_def scene_row_def
  new_series_row_def or_else_def

section \<open>Translation cache\<close>

lemma translate_prompt_inj: "translate_prompt a = translate_prompt b \<Longrightarrow> a = b"
  by (simp add: translate_prompt_def)

lemma translate_hit:
  "translationCache w s = Some v \<Longrightarrow> translateToEnglish E s w = (v, w)"
  by (simp add: translateToEnglish_def)

lemma translate_miss_ok:
  "translationCache w s = None \<Longrightarrow> generateContent E (now w) (translate_prompt s) = Inr v \<Longrightarrow>
   translateToEnglish E s w =
     (v, (emit (GeminiCall (translate_prompt s)) w)
           \<lparr>translationCache := (translationCache w)(s \<mapsto> v)\<rparr>)"
  by (simp add: translateToEnglish_def translate_try_def Let_def)

lemma translate_miss_fail:
  "translationCache w s = None \<Longrightarrow> generateContent E (now w) (translate_prompt s) = Inl e \<Longrightarrow>
   translateToEnglish E s w = (s, emit (GeminiCall (translate_prompt s)) w)"
  by (simp add: translateToEnglish_def translate_try_def Let_def)

lemma translate_stable:
  assumes "translationCache w t = Some v"
  shows "translationCache (snd (translateToEnglish E s w)) t = Some v \<and>
         count_list (trace (snd (translateToEnglish E s w))) (GeminiCall (translate_prompt t)) =
         count_list (trace w) (GeminiCall (translate_prompt t))"
  using assms
  by (auto simp: translateToEnglish_def translate_try_def Let_def
           dest: translate_prompt_inj split: option.splits sum.splits)

section \<open>Category classifier\<close>

lemma upto_last_bracket_prefix:
  assumes "upto_last_bracket s = Some m"
  shows "\<exists>post. s = m @ post"
proof -
  let ?d = "dropWhile (\<lambda>c. c \<noteq> CHR '']'') (rev s)"
  let ?t = "takeWhile (\<lambda>c. c \<noteq> CHR '']'') (rev s)"
  from assms have m: "m = rev ?d"
    by (simp add: upto_last_bracket_def split: if_splits)
  have "s = rev ?d @ rev ?t"
    by (metis rev_append rev_rev_ident takeWhile_dropWhile_id)
  with m show ?thesis by blast
qed

lemma rest_of_line_prefix: "\<exists>post. s = rest_of_line s @ post"
  by (induction s) auto

text \<open>What the pattern matches is a piece of the response.\<close>

lemma match_array_sublist:
  "match_array resp = Some m \<Longrightarrow> sublist m resp"
proof (induction resp)
  case Nil
  then show ?case by simp
next
  case (Cons c cs)
  show ?case
  proof (cases "c = CHR ''['' \<and> upto_last_bracket (rest_of_line cs) \<noteq> None")
    case True
    then obtain m' where m': "upto_last_bracket (rest_of_line cs) = Some m'" by auto
    with True Cons.prems have m: "m = c # m'" by simp
    from upto_last_bracket_prefix[OF m'] obtain p1 where "rest_of_line cs = m' @ p1" by blast
    moreover from rest_of_line_prefix[of cs] obtain p2 where "cs = rest_of_line cs @ p2"
      by blast
    ultimately have "c # cs = [] @ (c # m') @ (p1 @ p2)" by simp
    with m show ?thesis unfolding sublist_def by blast
  next
    case False
    with Cons.prems have "match_array cs = Some m" by (auto split: option.splits if_splits)
    from Cons.IH[OF this] obtain pre post where "cs = pre @ m @ post"
      unfolding sublist_def by blast
    then have "c # cs = (c # pre) @ m @ post" by simp
    then show ?thesis unfolding sublist_def by blast
  qed
qed

lemma valid_only_filter:
  "valid_only cs = filter (\<lambda>s. s \<in> set VALID_CATEGORIES) (strings_of cs)"
  by (induction cs rule: valid_only.induct) auto

lemma valid_only_subset: "set (valid_only cs) \<subseteq> set VALID_CATEGORIES"
  by (induction cs rule: valid_only.induct) auto


lemma classify_world:
  "snd (classifyCategories E th ch w) = emit (GeminiCall (classify_prompt th ch)) w"
  by (auto simp: classifyCategories_def classify_try_def Let_def
           split: option.splits json.splits sum.splits)

lemma classify_error:
  "generateContent E (now w) (classify_prompt th ch) = Inl e \<Longrightarrow>
   fst (classifyCategories E th ch w) = [''daily'']"
  by (simp add: classifyCategories_def classify_try_def Let_def)

lemma classify_found:
  "generateContent E (now w) (classify_prompt th ch) = Inr resp \<Longrightarrow>
   match_array resp = Some m \<Longrightarrow> JSON_parse E m = Some (JArray cs) \<Longrightarrow>
   fst (classifyCategories E th ch w) = valid_only cs"
  by (simp add: classifyCategories_def classify_try_def Let_def)

lemma classify_not_found:
  "generateContent E (now w) (classify_prompt th ch) = Inr resp \<Longrightarrow>
   (\<forall>m cs. match_array resp = Some m \<longrightarrow> JSON_parse E m \<noteq> Some (JArray cs)) \<Longrightarrow>
   fst (classifyCategories E th ch w) = [''daily'']"
  by (auto simp: classifyCategories_def classify_try_def Let_def
           split: option.splits json.splits)

lemma classify_in_taxonomy:
  "set (fst (classifyCategories E th ch w)) \<subseteq> set VALID_CATEGORIES"
proof -
  have d: "set [''daily''] \<subseteq> set VALID_CATEGORIES" by (simp add: VALID_CATEGORIES_def)
  show ?thesis
    using d valid_only_subset
    by (auto simp: classifyCategories_def classify_try_def Let_def
             split: option.splits json.splits sum.splits)
qed

text \<open>Running the pattern on the three answers of the scripted service.\<close>

lemma match_tags_mixed: "match_array (''Categories: '' @ tags_mixed) = Some tags_mixed"
  by (simp add: tags_mixed_def upto_last_bracket_def at_line_terminator_def)



text \<open>
  C6: whenever the call to the language service throws, and whenever its answer holds
  no piece of text that \<open>JSON.parse\<close> reads as an array, \<open>classifyCategories\<close> returns
  exactly \<open>['daily']\<close>. It always returns (every throw in it is caught), having called
  the service once. When the pattern finds a piece that parses as an array, the result
  is that array filtered to the taxonomy; every result lies in the taxonomy, which has
  eight tags.
\<close>

theorem C6_classifier_fallback:
  "(generateContent E (now w) (classify_prompt th ch) = Inl e \<longrightarrow>
      fst (classifyCategories E th ch w) = [''daily'']) \<and>
   (generateContent E (now w) (classify_prompt th ch) = Inr resp \<and>
    (\<forall>s cs. sublist s resp \<longrightarrow> JSON_parse E s \<noteq> Some (JArray cs)) \<longrightarrow>
      fst (classifyCategories E th ch w) = [''daily'']) \<and>
   (generateContent E (now w) (classify_prompt th ch) = Inr resp \<and>
    match_array resp = Some m \<and> JSON_parse E m = Some (JArray cs) \<longrightarrow>
      fst (classifyCategories E th ch w) =
        filter (\<lambda>s. s \<in> set VALID_CATEGORIES) (strings_of cs)) \<and>
   snd (classifyCategories E th ch w) = emit (GeminiCall (classify_prompt th ch)) w \<and>
   set (fst (classifyCategories E th ch w)) \<subseteq> set VALID_CATEGORIES \<and>
   distinct VALID_CATEGORIES \<and> length VALID_CATEGORIES = 8"
proof (intro conjI impI)
  assume "generateContent E (now w) (classify_prompt th ch) = Inl e"
  then show "fst (classifyCategories E th ch w) = [''daily'']" by (rule classify_error)
next
  assume a: "generateContent E (now w) (classify_prompt th ch) = Inr resp \<and>
             (\<forall>s cs. sublist s resp \<longrightarrow> JSON_parse E s \<noteq> Some (JArray cs))"
  then have "\<forall>m cs. match_array resp = Some m \<longrightarrow> JSON_parse E m \<noteq> Some (JArray cs)"
    using match_array_sublist by blast
  with a show "fst (classifyCategories E th ch w) = [''daily'']"
    using classify_not_found by blast
next
  assume "generateContent E (now w) (classify_prompt th ch) = Inr resp \<and>
          match_array resp = Some m \<and> JSON_parse E m = Some (JArray cs)"
  then show "fst (classifyCategories E th ch w) =
             filter (\<lambda>s. s \<in> set VALID_CATEGORIES) (strings_of cs)"
    using classify_found valid_only_filter by simp
next
  show "snd (classifyCategories E th ch w) = emit (GeminiCall (classify_prompt th ch)) w"
    by (rule classify_world)
  show "set (fst (classifyCategories E th ch w)) \<subseteq> set VALID_CATEGORIES"
    by (rule classify_in_taxonomy)
  show "distinct VALID_CATEGORIES" by (simp add: VALID_CATEGORIES_def)
  show "length VALID_CATEGORIES = 8" by (simp add: VALID_CATEGORIES_def)
qed

text \<open>
  The three cases on concrete services: the service is down; the service answers with
  prose that holds no array (third answer of the script); the service answers with a
  list of three names, two of them tags of the taxonomy (first answer of the script).
\<close>

theorem C6_classifier_fallback_witness:
  "fst (classifyCategories env_base ''cafe'' ''white cat'' world0) = [''daily''] \<and>
   fst (classifyCategories env_classifies ''cafe'' ''white cat''
          (emit (Sleep 0) (emit (Sleep 0) world0))) = [''daily''] \<and>
   fst (classifyCategories env_classifies ''cafe'' ''white cat'' world0) = [''cute'', ''animal'']"
proof -
  let ?w2 = "emit (Sleep 0) (emit (Sleep 0) world0)"
  have down: "generateContent env_base (now world0) (classify_prompt ''cafe'' ''white cat'') =
              Inl ''503 Service Unavailable''"
    by (simp add: env_base_def)
  have prose: "generateContent env_classifies (now ?w2) (classify_prompt ''cafe'' ''white cat'') =
               Inr ''cute and animal''"
    by (simp add: env_classifies_def env_base_def now_world0)
  have none: "\<forall>s cs. sublist s ''cute and animal'' \<longrightarrow> JSON_parse env_classifies s \<noteq> Some (JArray cs)"
  proof (intro allI impI)
    fix s cs
    assume s: "sublist s ''cute and animal''"
    have "CHR ''['' \<notin> set ''cute and animal''" by simp
    with s have "CHR ''['' \<notin> set s" using set_mono_sublist by blast
    then have "s \<noteq> tags_mixed" "s \<noteq> tags_unknown"
      by (auto simp: tags_mixed_def tags_unknown_def)
    then show "JSON_parse env_classifies s \<noteq> Some (JArray cs)"
      by (simp add: env_classifies_def env_base_def)
  qed
  have mixed: "generateContent env_classifies (now world0) (classify_prompt ''cafe'' ''white cat'') =
               Inr (''Categories: '' @ tags_mixed)"
    by (simp add: env_classifies_def env_base_def now_world0)
  have parse: "JSON_parse env_classifies tags_mixed =
               Some (JArray [JString ''cute'', JString ''sleepy'', JString ''animal''])"
    by (simp add: env_classifies_def env_base_def)
  from C6_classifier_fallback[of env_base world0 "''cafe''" "''white cat''"
         "''503 Service Unavailable''"] down
  have 1: "fst (classifyCategories env_base ''cafe'' ''white cat'' world0) = [''daily'']"
    by simp
  from C6_classifier_fallback[of env_classifies ?w2 "''cafe''" "''white cat''" _
         "''cute and animal''"] prose none
  have 2: "fst (classifyCategories env_classifies ''cafe'' ''white cat'' ?w2) = [''daily'']"
    by blast
  from C6_classifier_fallback[of env_classifies world0 "''cafe''" "''white cat''" _
         "''Categories: '' @ tags_mixed" tags_mixed
         "[JString ''cute'', JString ''sleepy'', JString ''animal'']"]
    mixed match_tags_mixed parse
  have 3: "fst (classifyCategories env_classifies ''cafe'' ''white cat'' world0) =
           [''cute'', ''animal'']"
    by (simp add: VALID_CATEGORIES_def)
  from 1 2 3 show ?thesis by simp
qed






section \<open>Items and the loop\<close>

lemma generate_item_index: "index (fst (generate_item E req model i w)) = i"
  by (simp add: generate_item_def generate_try_def split: prod.splits sum.splits)

lemma generate_item_prompt:
  "prompt (fst (generate_item E req model i w)) =
     (if isText2Img req then Some (the (prompts req) ! i) else None)"
  by (simp add: generate_item_def generate_try_def split: prod.splits sum.splits)

lemma generate_item_original:
  "originalDataUrl (fst (generate_item E req model i w)) =
     (if isText2Img req then None else Some (the (images req) ! i))"
  by (simp add: generate_item_def generate_try_def split: prod.splits sum.splits)

lemma generate_item_png_failed:
  "synthesize E req model i w = (Inr url, w3) \<Longrightarrow> fetch_resize_png E (now w3) url = Inl e \<Longrightarrow>
   generate_item E req model i w =
     (\<lparr>index = i,
       prompt = (if isText2Img req then Some (the (prompts req) ! i) else None),
       originalDataUrl = (if isText2Img req then None else Some (the (images req) ! i)),
       generatedUrl = Some url, transparentDataUrl = None, success = True, error = None\<rparr>,
      emit (FetchImage url) w3)"
  by (simp add: generate_item_def generate_try_def png_convert_def Let_def)

lemma generate_item_synth_failed:
  "synthesize E req model i w = (Inl message, w3) \<Longrightarrow>
   generate_item E req model i w =
     (\<lparr>index = i,
       prompt = (if isText2Img req then Some (the (prompts req) ! i) else None),
       originalDataUrl = (if isText2Img req then None else Some (the (images req) ! i)),
       generatedUrl = None, transparentDataUrl = None, success = False,
       error = Some message\<rparr>,
      w3)"
  by (simp add: generate_item_def generate_try_def)

text \<open>
  The part of the two-stage rule that holds: when the second synthesis call throws, the
  item is recorded as failed with the message of the error, and no URL.
\<close>

lemma item_fails_when_step2_throws:
  assumes "isText2Img req" and "\<not> isPreviewMode req"
    and "text2img_input E req i w = (inputParams, w1)"
    and "step1 E model inputParams w1 = (Inr imageUrl, w2)"
    and "replicate_run E (Suc (now w2)) model
           \<lparr>input_prompt = input_prompt inputParams, input_image = Some imageUrl,
            prompt_strength = Some 30\<rparr> = Inl message"
  shows "fst (generate_item E req model i w) =
           \<lparr>index = i, prompt = Some (the (prompts req) ! i), originalDataUrl = None,
            generatedUrl = None, transparentDataUrl = None, success = False,
            error = Some message\<rparr>"
proof -
  have "fst (synthesize E req model i w) = Inl message"
    using assms by (simp add: synthesize_def step2_def Let_def)
  then obtain w3 where "synthesize E req model i w = (Inl message, w3)"
    by (cases "synthesize E req model i w") simp
  from generate_item_synth_failed[OF this] assms(1) show ?thesis by simp
qed

lemma generate_loop_done:
  "\<not> i < n \<Longrightarrow> generate_loop E req model n i rs w = (rs, w)"
  by (subst generate_loop.simps) simp

lemma generate_loop_step:
  "i < n \<Longrightarrow>
   generate_loop E req model n i rs w =
     generate_loop E req model n (Suc i) (rs @ [fst (generate_item E req model i w)])
       (if i < n - 1
        then emit (Sleep (if isPreviewMode req then 2000 else 15000))
               (snd (generate_item E req model i w))
        else snd (generate_item E req model i w))"
  by (subst generate_loop.simps) (simp add: Let_def split: prod.splits)

text \<open>
  A field that an item's result gets from its index alone is, over the results of the
  loop, that function of the indices in order.
\<close>

lemma generate_loop_map:
  assumes "\<And>i w. f (fst (generate_item E req model i w)) = g i"
  shows "i \<le> n \<Longrightarrow>
         map f (fst (generate_loop E req model n i rs w)) = map f rs @ map g [i..<n]"
proof (induction "n - i" arbitrary: i rs w)
  case 0
  then show ?case by (simp add: generate_loop_done)
next
  case (Suc d)
  then have lt: "i < n" by simp
  have "map f (fst (generate_loop E req model n i rs w)) =
        map f (rs @ [fst (generate_item E req model i w)]) @ map g [Suc i..<n]"
    unfolding generate_loop_step[OF lt] using Suc lt by (intro Suc.hyps(1)) simp_all
  then show ?case using lt by (simp add: assms upt_conv_Cons)
qed

lemma generate_loop_index:
  "map index (fst (generate_loop E req model n 0 [] w)) = [0..<n]"
  using generate_loop_map[of index E req model "\<lambda>i. i" 0 n "[]" w]
  by (simp add: generate_item_index)

text \<open>A request that passes every check of the route runs the loop and answers with a batch.\<close>

lemma POST_valid:
  assumes "\<not> (mode req = img2img \<and> missing (images req))"
    and "\<not> ((actualMode (mode req) = text2img \<or> isPreviewMode req \<or> mode req = batch) \<and>
             missing (prompts req))"
    and "REPLICATE_API_TOKEN E" and "truthy (id_req req)"
    and "resolveReplicateModelById E (the (id_req req)) = Inr model"
  shows "POST E req w =
     (let itemCount =
            (if isText2Img req then length (the (prompts req)) else length (the (images req)));
          (rs, w1) = generate_loop E req model itemCount 0 [] w;
          n = length (filter success rs);
          (saved, w2) =
            (if saveToDb req \<and> truthy (userId req) \<and> truthy (character req) \<and> n > 0
             then auto_save E req rs n w1 else (None, w1))
      in (BatchResponse
            \<lparr>response_mode = mode req, results = rs, total = itemCount, successCount = n,
             failedCount = int itemCount - int n, savedSeriesId = saved\<rparr>, w2))"
proof -
  have a: "(mode req = img2img \<and> missing (images req)) = False"
    "((actualMode (mode req) = text2img \<or> isPreviewMode req \<or> mode req = batch) \<and>
      missing (prompts req)) = False"
    "(\<not> REPLICATE_API_TOKEN E) = False" "(\<not> truthy (id_req req)) = False"
    using assms by simp_all
  show ?thesis
    unfolding POST_def by (simp only: a if_False assms(5) sum.case Let_def)
qed

lemma isText2Img_mode: "isText2Img req = (mode req \<noteq> img2img)"
  by (cases "mode req") (simp_all add: isText2Img_def actualMode_def)

text \<open>
  C1: a request that passes the validation (the list of its mode is present and not
  empty, the token is configured, the model id is given and resolves) is answered with
  a batch whose \<open>results\<close> has exactly \<open>N\<close> entries, \<open>N\<close> being the number of prompts
  in the text-to-image modes and the number of images in image-to-image mode. The
  \<open>i\<close>-th entry has index \<open>i\<close> and carries the \<open>i\<close>-th prompt (or image) of the
  request. \<open>total\<close> is \<open>N\<close>, \<open>successCount\<close> is the number of entries with
  \<open>success = true\<close>, and \<open>failedCount\<close> is \<open>N - successCount\<close>. No hypothesis is made
  on the services, so this holds however many items fail.
\<close>

theorem C1_results_aligned:
  assumes "\<not> (mode req = img2img \<and> missing (images req))"
    and "\<not> ((actualMode (mode req) = text2img \<or> isPreviewMode req \<or> mode req = batch) \<and>
             missing (prompts req))"
    and "REPLICATE_API_TOKEN E" and "truthy (id_req req)"
    and "resolveReplicateModelById E (the (id_req req)) = Inr model"
    and "N = (if mode req = img2img then length (the (images req))
              else length (the (prompts req)))"
  shows "\<exists>b w'. POST E req w = (BatchResponse b, w') \<and>
           length (results b) = N \<and>
           map index (results b) = [0..<N] \<and>
           map prompt (results b) =
             (if mode req = img2img then replicate N None else map Some (the (prompts req))) \<and>
           map originalDataUrl (results b) =
             (if mode req = img2img then map Some (the (images req)) else replicate N None) \<and>
           total b = N \<and>
           successCount b = length (filter success (results b)) \<and>
           failedCount b = int N - int (successCount b) \<and>
           0 \<le> failedCount b"
proof -
  let ?n = "if isText2Img req then length (the (prompts req)) else length (the (images req))"
  have N: "?n = N" using assms(6) by (simp add: isText2Img_mode)
  obtain rs w1 where L: "generate_loop E req model N 0 [] w = (rs, w1)"
    by (cases "generate_loop E req model N 0 [] w")
  have idx: "map index rs = [0..<N]"
    using generate_loop_index[of E req model N w] L by simp
  then have "length (map index rs) = length [0..<N]" by simp
  then have len: "length rs = N" by simp
  have fl: "map prompt rs =
              map (\<lambda>k. if isText2Img req then Some (the (prompts req) ! k) else None) [0..<N]"
    "map originalDataUrl rs =
       map (\<lambda>k. if isText2Img req then None else Some (the (images req) ! k)) [0..<N]"
    using generate_loop_map[of prompt E req model _ 0 N "[]" w, OF generate_item_prompt]
      generate_loop_map[of originalDataUrl E req model _ 0 N "[]" w, OF generate_item_original]
      L
    by simp_all
  have p: "map prompt rs =
             (if mode req = img2img then replicate N None else map Some (the (prompts req)))"
    unfolding fl(1) using N by (auto simp: isText2Img_mode intro!: nth_equalityI)
  have q: "map originalDataUrl rs =
             (if mode req = img2img then map Some (the (images req)) else replicate N None)"
    unfolding fl(2) using N by (auto simp: isText2Img_mode intro!: nth_equalityI)
  have le: "length (filter success rs) \<le> N" using len length_filter_le[of success rs] by simp
  show ?thesis
    unfolding POST_valid[OF assms(1-5)] N
    using L idx len p q le by (simp add: Let_def split: prod.splits)
qed

text \<open>
  Three prompts in two-stage mode, where the second synthesis call of the second item
  throws: three results in order, the second one failed.
\<close>

lemma resolve_base:
  "SUPABASE_ENV E \<Longrightarrow> lora_models_select E ''m1'' = Some ''owner/model'' \<Longrightarrow>
   resolveReplicateModelById E ''m1'' = Inr ''owner/model''"
  by (simp add: resolveReplicateModelById_def)

theorem C1_results_aligned_witness:
  "map index (results_of (fst (POST env_stage2_throws req_text3 world0))) = [0, 1, 2] \<and>
   map prompt (results_of (fst (POST env_stage2_throws req_text3 world0))) =
     [Some ''wave'', Some ''sit'', Some ''jump''] \<and>
   map success (results_of (fst (POST env_stage2_throws req_text3 world0))) =
     [True, False, True] \<and>
   map error (results_of (fst (POST env_stage2_throws req_text3 world0))) =
     [None, Some ''Prediction failed'', None]"
proof -
  have v: "\<not> (mode req_text3 = img2img \<and> missing (images req_text3))"
    "\<not> ((actualMode (mode req_text3) = text2img \<or> isPreviewMode req_text3 \<or>
          mode req_text3 = batch) \<and> missing (prompts req_text3))"
    "REPLICATE_API_TOKEN env_stage2_throws" "truthy (id_req req_text3)"
    by (simp_all add: req_text3_def env_stage2_throws_def env_base_def missing_def truthy_def)
  have r: "resolveReplicateModelById env_stage2_throws (the (id_req req_text3)) =
           Inr ''owner/model''"
    by (simp add: req_text3_def resolve_base env_stage2_throws_def env_base_def)
  have n: "(3::nat) = (if mode req_text3 = img2img then length (the (images req_text3))
                       else length (the (prompts req_text3)))"
    by (simp add: req_text3_def)
  from C1_results_aligned[OF v r n, of world0]
  obtain b w' where b: "POST env_stage2_throws req_text3 world0 = (BatchResponse b, w')"
    and i: "map index (results b) = [0..<3]"
    and p: "map prompt (results b) =
            (if mode req_text3 = img2img then replicate 3 None
             else map Some (the (prompts req_text3)))"
    by blast
  have s: "map (\<lambda>r. (success r, error r)) (results_of (fst (POST env_stage2_throws req_text3 world0))) =
           [(True, None), (False, Some ''Prediction failed''), (True, None)]"
    unfolding POST_valid[OF v r]
    by (simp add: generate_loop_step generate_loop_done item_defs req_text3_def
          env_stage2_throws_def env_base_def world0_def)
  have u: "[0..<3] = [0, 1, 2]" by (simp add: upt_rec)
  from b have rb: "results_of (fst (POST env_stage2_throws req_text3 world0)) = results b"
    by simp
  have ms: "map success (results b) = map fst (map (\<lambda>r. (success r, error r)) (results b))"
    and me: "map error (results b) = map snd (map (\<lambda>r. (success r, error r)) (results b))"
    by (simp_all add: comp_def)
  from s have s': "map (\<lambda>r. (success r, error r)) (results b) =
                   [(True, None), (False, Some ''Prediction failed''), (True, None)]"
    unfolding rb .
  show ?thesis
    unfolding rb ms me s' using i p u by (simp add: req_text3_def)
qed

section \<open>Post-processing\<close>

text \<open>
  C8: when the synthesis of an item has succeeded with the URL \<open>url\<close> and the
  conversion (fetching the image, resizing it, encoding it as PNG) throws, the item is
  still recorded with \<open>success = true\<close> and \<open>generatedUrl = url\<close>, its normalized
  image data is null and it has no error.
\<close>

theorem C8_conversion_failure_keeps_item:
  assumes "synthesize E req model i w = (Inr url, w3)"
    and "fetch_resize_png E (now w3) url = Inl e"
  shows "generate_item E req model i w =
           (\<lparr>index = i,
             prompt = (if isText2Img req then Some (the (prompts req) ! i) else None),
             originalDataUrl = (if isText2Img req then None else Some (the (images req) ! i)),
             generatedUrl = Some url, transparentDataUrl = None, success = True,
             error = None\<rparr>,
            emit (FetchImage url) w3)"
  using assms by (rule generate_item_png_failed)

text \<open>One prompt in two-stage mode, with an image that cannot be fetched.\<close>

theorem C8_conversion_failure_keeps_item_witness:
  "fst (generate_item env_fetch_down req_text1 ''owner/model'' 0 world0) =
     \<lparr>index = 0, prompt = Some ''wave'', originalDataUrl = None,
      generatedUrl = Some ''https://replicate.delivery/out.webp'', transparentDataUrl = None,
      success = True, error = None\<rparr>"
proof -
  let ?s = "synthesize env_fetch_down req_text1 ''owner/model'' 0 world0"
  have "fst ?s = Inr ''https://replicate.delivery/out.webp''"
    by (simp add: item_defs req_text1_def env_fetch_down_def env_base_def world0_def)
  then have s: "?s = (Inr ''https://replicate.delivery/out.webp'', snd ?s)"
    by (cases ?s) simp
  have f: "fetch_resize_png env_fetch_down (now (snd ?s)) ''https://replicate.delivery/out.webp'' =
           Inl ''fetch failed''"
    by (simp add: env_fetch_down_def env_base_def)
  from C8_conversion_failure_keeps_item[OF s f]
  show ?thesis by (simp add: isText2Img_def actualMode_def req_text1_def)
qed

section \<open>Two-stage synthesis\<close>

text \<open>
  C2, where the route departs from the claim. The first synthesis call returns a URL.
  The second returns without throwing, but with \<open>null\<close> in one world and with an
  empty array in the other. The reading of the first call's output throws on both
  shapes; the reading of the second call's output has no such branches and no check of
  the URL. So the item is reported with \<open>success = true\<close>: with the first stage's URL
  as \<open>generatedUrl\<close> in the one world, and with the text \<open>undefined\<close> as
  \<open>generatedUrl\<close> (and no image data, as that text cannot be fetched) in the other.
\<close>

theorem C2_stage2_output_unchecked:
  "fst (POST env_stage2_null req_text1 world0) =
     BatchResponse
       \<lparr>response_mode = text2img,
        results =
          [\<lparr>index = 0, prompt = Some ''wave'', originalDataUrl = None,
            generatedUrl = Some ''https://replicate.delivery/stage1.webp'',
            transparentDataUrl = Some ''data:image/png;base64,iVBORw0KGgo='',
            success = True, error = None\<rparr>],
        total = 1, successCount = 1, failedCount = 0, savedSeriesId = None\<rparr> \<and>
   fst (POST env_stage2_empty req_text1 world0) =
     BatchResponse
       \<lparr>response_mode = text2img,
        results =
          [\<lparr>index = 0, prompt = Some ''wave'', originalDataUrl = None,
            generatedUrl = Some ''undefined'',
            transparentDataUrl = None,
            success = True, error = None\<rparr>],
        total = 1, successCount = 1, failedCount = 0, savedSeriesId = None\<rparr>"
proof -
  have v: "\<not> (mode req_text1 = img2img \<and> missing (images req_text1))"
    "\<not> ((actualMode (mode req_text1) = text2img \<or> isPreviewMode req_text1 \<or>
          mode req_text1 = batch) \<and> missing (prompts req_text1))"
    "truthy (id_req req_text1)"
    by (simp_all add: req_text1_def missing_def truthy_def)
  have t: "REPLICATE_API_TOKEN env_stage2_null" "REPLICATE_API_TOKEN env_stage2_empty"
    by (simp_all add: env_stage2_null_def env_stage2_empty_def env_base_def)
  have r: "resolveReplicateModelById env_stage2_null (the (id_req req_text1)) = Inr ''owner/model''"
    "resolveReplicateModelById env_stage2_empty (the (id_req req_text1)) = Inr ''owner/model''"
    by (simp_all add: req_text1_def resolve_base env_stage2_null_def env_stage2_empty_def
          env_base_def)
  have 1: "fst (POST env_stage2_null req_text1 world0) =
     BatchResponse
       \<lparr>response_mode = text2img,
        results =
          [\<lparr>index = 0, prompt = Some ''wave'', originalDataUrl = None,
            generatedUrl = Some ''https://replicate.delivery/stage1.webp'',
            transparentDataUrl = Some ''data:image/png;base64,iVBORw0KGgo='',
            success = True, error = None\<rparr>],
        total = 1, successCount = 1, failedCount = 0, savedSeriesId = None\<rparr>"
    unfolding POST_valid[OF v(1,2) t(1) v(3) r(1)]
    by (simp add: generate_loop_step generate_loop_done item_defs req_text1_def
          env_stage2_null_def env_base_def world0_def)
  have 2: "fst (POST env_stage2_empty req_text1 world0) =
     BatchResponse
       \<lparr>response_mode = text2img,
        results =
          [\<lparr>index = 0, prompt = Some ''wave'', originalDataUrl = None,
            generatedUrl = Some ''undefined'',
            transparentDataUrl = None,
            success = True, error = None\<rparr>],
        total = 1, successCount = 1, failedCount = 0, savedSeriesId = None\<rparr>"
    unfolding POST_valid[OF v(1,2) t(2) v(3) r(2)]
    by (simp add: generate_loop_step generate_loop_done item_defs req_text1_def
          env_stage2_empty_def env_base_def world0_def)
  from 1 2 show ?thesis by simp
qed

section \<open>Prompt compiler\<close>

lemma text2img_input_no_clause:
  "\<not> (truthy (theme req) \<and> mode req = batch) \<Longrightarrow>
   text2img_input E (req\<lparr>theme := None\<rparr>) i w = text2img_input E req i w"
  by (auto simp: text2img_input_def truthy_def Let_def split: prod.splits)

lemma text2img_input_clause:
  "truthy (theme req) \<Longrightarrow> mode req = batch \<Longrightarrow>
   input_prompt (fst (text2img_input E req i w)) =
     fullPrompt
       (fst (translateToEnglish E (the (prompts req) ! i) w) @ '', in context of '' @
        fst (translateToEnglish E (the (theme req))
               (snd (translateToEnglish E (the (prompts req) ! i) w))))
       (stylePrefix_text2img (style req)) (colorPrompt (monochromeOnly req))"
  by (simp add: text2img_input_def Let_def split: prod.splits)

lemma img2img_input_no_clause:
  "\<not> (truthy (theme req) \<and> truthy (js_index (prompts req) i)) \<Longrightarrow>
   img2img_input E (req\<lparr>theme := None\<rparr>) i w = img2img_input E req i w"
  by (auto simp: img2img_input_def truthy_def Let_def split: prod.splits)

lemma img2img_input_clause:
  "truthy (theme req) \<Longrightarrow> truthy (js_index (prompts req) i) \<Longrightarrow>
   input_prompt (fst (img2img_input E req i w)) =
     stylePrompt
       (fst (translateToEnglish E (the (js_index (prompts req) i)) w) @ '', in context of '' @
        fst (translateToEnglish E (the (theme req))
               (snd (translateToEnglish E (the (js_index (prompts req) i)) w))))
       (stylePrefix_img2img (style req)) (colorPrompt (monochromeOnly req))"
  by (simp add: img2img_input_def Let_def split: prod.splits)

text \<open>Where the theme does not reach the prompt, it reaches nothing in the item.\<close>

lemma generate_item_theme_ignored:
  assumes "(mode req \<noteq> img2img \<and> \<not> (truthy (theme req) \<and> mode req = batch)) \<or>
           (mode req = img2img \<and> \<not> (truthy (theme req) \<and> truthy (js_index (prompts req) i)))"
  shows "generate_item E (req\<lparr>theme := None\<rparr>) model i w = generate_item E req model i w"
proof -
  have e: "isText2Img (req\<lparr>theme := None\<rparr>) = isText2Img req"
    "isPreviewMode (req\<lparr>theme := None\<rparr>) = isPreviewMode req"
    "prompts (req\<lparr>theme := None\<rparr>) = prompts req"
    "images (req\<lparr>theme := None\<rparr>) = images req"
    by (simp_all add: isText2Img_def isPreviewMode_def)
  have i: "(if isText2Img req then text2img_input E (req\<lparr>theme := None\<rparr>) i w
            else img2img_input E (req\<lparr>theme := None\<rparr>) i w) =
           (if isText2Img req then text2img_input E req i w else img2img_input E req i w)"
    using assms text2img_input_no_clause[of req E i w] img2img_input_no_clause[of req i E w]
    by (auto simp: isText2Img_mode)
  show ?thesis
    unfolding generate_item_def generate_try_def synthesize_def e i ..
qed

text \<open>
  C7, as the claim states it: with a theme and a mode other than batch, the compiled
  prompt has no theme clause. It fails in image-to-image mode, whose branch adds the
  clause whenever the theme and the item's prompt are present. Here the request is in
  image-to-image mode with the theme \<open>cafe\<close> and the prompt \<open>wave\<close>; the one prompt
  sent to the synthesis service starts with the prompt followed by the theme clause.
\<close>

theorem C7_counterexample:
  "mode req_img1 \<noteq> batch \<and> truthy (theme req_img1) \<and>
   sent_prompts (trace (snd (POST env_base req_img1 world0))) =
     [stylePrompt ''wave, in context of cafe'' (stylePrefix_img2img None) (colorPrompt True)] \<and>
   startsWith
     (stylePrompt ''wave, in context of cafe'' (stylePrefix_img2img None) (colorPrompt True))
     ''wave, in context of cafe, ''"
proof -
  have v: "\<not> (mode req_img1 = img2img \<and> missing (images req_img1))"
    "\<not> ((actualMode (mode req_img1) = text2img \<or> isPreviewMode req_img1 \<or>
          mode req_img1 = batch) \<and> missing (prompts req_img1))"
    "REPLICATE_API_TOKEN env_base" "truthy (id_req req_img1)"
    by (simp_all add: req_img1_def env_base_def missing_def truthy_def actualMode_def
          isPreviewMode_def)
  have r: "resolveReplicateModelById env_base (the (id_req req_img1)) = Inr ''owner/model''"
    by (simp add: req_img1_def resolve_base env_base_def)
  have 1: "sent_prompts (trace (snd (POST env_base req_img1 world0))) =
     [stylePrompt ''wave, in context of cafe'' (stylePrefix_img2img None) (colorPrompt True)]"
    unfolding POST_valid[OF v r]
    by (simp add: generate_loop_step generate_loop_done item_defs req_img1_def
          convertTransparentToWhite_def env_base_def world0_def)
  have 2: "startsWith
     (stylePrompt ''wave, in context of cafe'' (stylePrefix_img2img None) (colorPrompt True))
     ''wave, in context of cafe, ''"
    by (simp add: stylePrompt_def)
  from 1 2 show ?thesis by (simp add: req_img1_def truthy_def)
qed

text \<open>
  C7, amended: in the text-to-image modes the compiled prompt has the theme clause
  exactly when a theme is present and the mode is batch; in image-to-image mode it has
  the clause exactly when a theme is present and the item has a prompt. Where the
  clause is left out, the item is processed as it would be with no theme at all: same
  prompt, same calls, same result. Where it is put in, the compiled prompt is the
  template around the translated prompt followed by \<open>, in context of\<close> and the
  translated theme.
\<close>

theorem C7_theme_clause:
  "((mode req \<noteq> img2img \<and> \<not> (truthy (theme req) \<and> mode req = batch)) \<or>
    (mode req = img2img \<and> \<not> (truthy (theme req) \<and> truthy (js_index (prompts req) i))) \<longrightarrow>
      generate_item E (req\<lparr>theme := None\<rparr>) model i w = generate_item E req model i w) \<and>
   (truthy (theme req) \<and> mode req = batch \<longrightarrow>
      input_prompt (fst (text2img_input E req i w)) =
        fullPrompt
          (fst (translateToEnglish E (the (prompts req) ! i) w) @ '', in context of '' @
           fst (translateToEnglish E (the (theme req))
                  (snd (translateToEnglish E (the (prompts req) ! i) w))))
          (stylePrefix_text2img (style req)) (colorPrompt (monochromeOnly req))) \<and>
   (truthy (theme req) \<and> mode req = img2img \<and> truthy (js_index (prompts req) i) \<longrightarrow>
      input_prompt (fst (img2img_input E req i w)) =
        stylePrompt
          (fst (translateToEnglish E (the (js_index (prompts req) i)) w) @ '', in context of '' @
           fst (translateToEnglish E (the (theme req))
                  (snd (translateToEnglish E (the (js_index (prompts req) i)) w))))
          (stylePrefix_img2img (style req)) (colorPrompt (monochromeOnly req)))"
  using generate_item_theme_ignored[of req i E model w] text2img_input_clause[of req E i w]
    img2img_input_clause[of req i E w]
  by blast

text \<open>
  A preview request with the theme \<open>cafe\<close> is processed as the same request without a
  theme; the same prompt in batch mode gets the clause.
\<close>

theorem C7_theme_clause_witness:
  "generate_item env_base (req_preview1\<lparr>theme := None\<rparr>) ''owner/model'' 0 world0 =
     generate_item env_base req_preview1 ''owner/model'' 0 world0 \<and>
   theme req_preview1 = Some ''cafe'' \<and>
   input_prompt (fst (text2img_input env_base req_batch1 0 world0)) =
     fullPrompt ''wave, in context of cafe'' (stylePrefix_text2img None) (colorPrompt True)"
proof -
  have a: "mode req_preview1 \<noteq> img2img \<and> \<not> (truthy (theme req_preview1) \<and> mode req_preview1 = batch)"
    by (simp add: req_preview1_def)
  have b: "truthy (theme req_batch1) \<and> mode req_batch1 = batch"
    by (simp add: req_batch1_def req_text1_def truthy_def)
  have t: "fst (translateToEnglish env_base (the (prompts req_batch1) ! 0) world0) = ''wave''"
    "fst (translateToEnglish env_base (the (theme req_batch1))
            (snd (translateToEnglish env_base (the (prompts req_batch1) ! 0) world0))) = ''cafe''"
    by (simp_all add: translateToEnglish_def translate_try_def Let_def req_batch1_def
          req_text1_def env_base_def world0_def emit_def)
  from C7_theme_clause[of req_preview1 0 env_base "''owner/model''" world0]
    C7_theme_clause[of req_batch1 0 env_base "''owner/model''" world0] a b t
  show ?thesis by (simp add: req_preview1_def req_batch1_def req_text1_def)
qed

section \<open>Persistence\<close>

lemma save_scene_result:
  assumes "transparentDataUrl r \<noteq> None"
  shows "fst (save_scene E req sid r idx w) =
           (if upload_succeeds E sid r (now w) then Some (scene_row E req sid r idx) else None)"
    and "now (snd (save_scene E req sid r idx w)) = Suc (now w)"
    and "emoticon_scenes (snd (save_scene E req sid r idx w)) = emoticon_scenes w"
    and "emoticon_series (snd (save_scene E req sid r idx w)) = emoticon_series w"
    and "filter is_ScenesInsert (trace (snd (save_scene E req sid r idx w))) =
         filter is_ScenesInsert (trace w)"
    and "length (filter is_StorageUpload (trace (snd (save_scene E req sid r idx w)))) =
         Suc (length (filter is_StorageUpload (trace w)))"
  using assms
  by (auto simp: save_scene_def upload_succeeds_def Let_def split: option.splits sum.splits)

text \<open>
  The fan-out over results that all have image data: the records collected are those of
  the results whose upload succeeds, the \<open>k\<close>-th upload being started \<open>k\<close> calls
  after the first; nothing is written to the tables, and one upload is started for each
  result.
\<close>

lemma upload_all_records:
  assumes "\<forall>x \<in> set items. transparentDataUrl (fst x) \<noteq> None"
  shows "fst (upload_all E req sid items w) =
           map (\<lambda>((r, idx), t). scene_row E req sid r idx)
             (filter (\<lambda>((r, idx), t). upload_succeeds E sid r t)
                (zip items [now w..<now w + length items])) \<and>
         now (snd (upload_all E req sid items w)) = now w + length items \<and>
         emoticon_scenes (snd (upload_all E req sid items w)) = emoticon_scenes w \<and>
         emoticon_series (snd (upload_all E req sid items w)) = emoticon_series w \<and>
         filter is_ScenesInsert (trace (snd (upload_all E req sid items w))) =
           filter is_ScenesInsert (trace w) \<and>
         length (filter is_StorageUpload (trace (snd (upload_all E req sid items w)))) =
           length items + length (filter is_StorageUpload (trace w))"
  using assms
proof (induction items arbitrary: w)
  case Nil
  then show ?case by simp
next
  case (Cons x items)
  obtain r idx where x: "x = (r, idx)" by (cases x)
  obtain s w1 where s: "save_scene E req sid r idx w = (s, w1)"
    by (cases "save_scene E req sid r idx w")
  from Cons.prems x have tdu: "transparentDataUrl r \<noteq> None" by simp
  from save_scene_result[OF tdu, of E req sid idx w] s
  have s1: "s = (if upload_succeeds E sid r (now w) then Some (scene_row E req sid r idx)
                 else None)"
    and w1: "now w1 = Suc (now w)" "emoticon_scenes w1 = emoticon_scenes w"
      "emoticon_series w1 = emoticon_series w"
      "filter is_ScenesInsert (trace w1) = filter is_ScenesInsert (trace w)"
      "length (filter is_StorageUpload (trace w1)) = Suc (length (filter is_StorageUpload (trace w)))"
    by simp_all
  from Cons.prems have "\<forall>x \<in> set items. transparentDataUrl (fst x) \<noteq> None" by simp
  note IH = Cons.IH[OF this, of w1]
  obtain rest w2 where u: "upload_all E req sid items w1 = (rest, w2)"
    by (cases "upload_all E req sid items w1")
  define ts where "ts = [now w1..<now w1 + length items]"
  have rest: "rest = map (\<lambda>((r, idx), t). scene_row E req sid r idx)
                    (filter (\<lambda>((r, idx), t). upload_succeeds E sid r t) (zip items ts))"
    and w2: "now w2 = now w1 + length items" "emoticon_scenes w2 = emoticon_scenes w1"
      "emoticon_series w2 = emoticon_series w1"
      "filter is_ScenesInsert (trace w2) = filter is_ScenesInsert (trace w1)"
      "length (filter is_StorageUpload (trace w2)) =
         length items + length (filter is_StorageUpload (trace w1))"
    using IH u unfolding ts_def by simp_all
  have "[now w..<now w + length (x # items)] = now w # ts"
    unfolding ts_def by (subst upt_rec) (simp add: w1(1))
  then have z: "zip (x # items) [now w..<now w + length (x # items)] =
                ((r, idx), now w) # zip items ts"
    using x by simp
  have up: "upload_all E req sid (x # items) w =
            ((case s of None \<Rightarrow> rest | Some a \<Rightarrow> a # rest), w2)"
    using x s u by simp
  show ?case
    unfolding z up using rest s1 w1 w2 by simp
qed

lemma auto_save_insert_failed:
  assumes "SUPABASE_ENV E"
    and "series_insert E (Suc (now w))
           (new_series_row req
              (fst (classifyCategories E (or_else (theme req) []) (the (character req)) w)) n) =
         Inl e"
  shows "auto_save E req rs n w =
     (None,
      emit (SeriesInsert (new_series_row req
              (fst (classifyCategories E (or_else (theme req) []) (the (character req)) w)) n))
        (emit (GeminiCall (classify_prompt (or_else (theme req) []) (the (character req)))) w))"
proof -
  obtain cats w1 where
    c: "classifyCategories E (or_else (theme req) []) (the (character req)) w = (cats, w1)"
    by (cases "classifyCategories E (or_else (theme req) []) (the (character req)) w")
  with classify_world[of E "or_else (theme req) []" "the (character req)" w]
  have w1: "w1 = emit (GeminiCall (classify_prompt (or_else (theme req) []) (the (character req)))) w"
    by simp
  show ?thesis using assms c w1 by (simp add: auto_save_def Let_def)
qed

lemma auto_save_created:
  assumes "SUPABASE_ENV E"
    and c: "cats = fst (classifyCategories E (or_else (theme req) []) (the (character req)) w)"
    and "series_insert E (Suc (now w)) (new_series_row req cats n) = Inr sid"
    and S: "S = filter (\<lambda>r. success r \<and> truthy (transparentDataUrl r)) rs"
    and R: "recs = map (\<lambda>((r, idx), t). scene_row E req sid r idx)
                    (filter (\<lambda>((r, idx), t). upload_succeeds E sid r t)
                       (zip (zip S [0..<length S]) [now w + 2..<now w + 2 + length S]))"
  shows "fst (auto_save E req rs n w) = Some sid"
    and "emoticon_series (snd (auto_save E req rs n w)) =
           emoticon_series w @ [(sid, new_series_row req cats n)]"
    and "emoticon_scenes (snd (auto_save E req rs n w)) =
           emoticon_scenes w @ (if scenes_insert E (now w + 2 + length S) recs then [] else recs)"
    and "filter is_ScenesInsert (trace (snd (auto_save E req rs n w))) =
           (if recs \<noteq> [] then [ScenesInsert recs] else []) @ filter is_ScenesInsert (trace w)"
    and "length (filter is_StorageUpload (trace (snd (auto_save E req rs n w)))) =
           length S + length (filter is_StorageUpload (trace w))"
proof -
  obtain cs w1 where
    cl: "classifyCategories E (or_else (theme req) []) (the (character req)) w = (cs, w1)"
    by (cases "classifyCategories E (or_else (theme req) []) (the (character req)) w")
  with classify_world[of E "or_else (theme req) []" "the (character req)" w] c
  have w1: "w1 = emit (GeminiCall (classify_prompt (or_else (theme req) []) (the (character req)))) w"
    and cs: "cs = cats" by simp_all
  let ?row = "new_series_row req cats n"
  let ?w3 = "(emit (SeriesInsert ?row) w1)
               \<lparr>emoticon_series := emoticon_series (emit (SeriesInsert ?row) w1) @ [(sid, ?row)]\<rparr>"
  have n3: "now ?w3 = now w + 2" using w1 by simp
  have tdu: "\<forall>x \<in> set (zip S [0..<length S]). transparentDataUrl (fst x) \<noteq> None"
    unfolding S by (auto simp: truthy_def dest!: set_zip_leftD split: option.splits)
  obtain recs' w4 where u: "upload_all E req sid (zip S [0..<length S]) ?w3 = (recs', w4)"
    by (cases "upload_all E req sid (zip S [0..<length S]) ?w3")
  from upload_all_records[OF tdu, of E req sid ?w3] u n3 R
  have r: "recs' = recs" and w4: "now w4 = now w + 2 + length S"
      "emoticon_scenes w4 = emoticon_scenes w"
      "emoticon_series w4 = emoticon_series w @ [(sid, ?row)]"
      "filter is_ScenesInsert (trace w4) = filter is_ScenesInsert (trace w)"
      "length (filter is_StorageUpload (trace w4)) = length S + length (filter is_StorageUpload (trace w))"
    using w1 by (simp_all add: emit_def)
  have A: "auto_save E req rs n w =
        (Some sid,
         if recs \<noteq> []
         then (if scenes_insert E (now w4) recs then emit (ScenesInsert recs) w4
               else (emit (ScenesInsert recs) w4)
                      \<lparr>emoticon_scenes := emoticon_scenes (emit (ScenesInsert recs) w4) @ recs\<rparr>)
         else w4)"
    using assms(1,3) cl cs w1 u r S by (simp add: auto_save_def Let_def)
  show "fst (auto_save E req rs n w) = Some sid" by (simp add: A)
  show "emoticon_series (snd (auto_save E req rs n w)) = emoticon_series w @ [(sid, ?row)]"
    by (simp add: A w4)
  show "emoticon_scenes (snd (auto_save E req rs n w)) =
           emoticon_scenes w @ (if scenes_insert E (now w + 2 + length S) recs then [] else recs)"
    by (simp add: A w4)
  show "filter is_ScenesInsert (trace (snd (auto_save E req rs n w))) =
           (if recs \<noteq> [] then [ScenesInsert recs] else []) @ filter is_ScenesInsert (trace w)"
    by (simp add: A w4)
  show "length (filter is_StorageUpload (trace (snd (auto_save E req rs n w)))) =
           length S + length (filter is_StorageUpload (trace w))"
    by (simp add: A w4)
qed

lemma resolve_needs_env:
  "resolveReplicateModelById E i = Inr model \<Longrightarrow> SUPABASE_ENV E"
  by (simp add: resolveReplicateModelById_def split: if_splits)

text \<open>The answer of the route in terms of the loop's outcome.\<close>

lemma POST_after_loop:
  assumes "\<not> (mode req = img2img \<and> missing (images req))"
    and "\<not> ((actualMode (mode req) = text2img \<or> isPreviewMode req \<or> mode req = batch) \<and>
             missing (prompts req))"
    and "REPLICATE_API_TOKEN E" and "truthy (id_req req)"
    and "resolveReplicateModelById E (the (id_req req)) = Inr model"
    and "generate_loop E req model
           (if isText2Img req then length (the (prompts req)) else length (the (images req)))
           0 [] w = (rs, w1)"
    and "n = length (filter success rs)"
    and "requested = (saveToDb req \<and> truthy (userId req) \<and> truthy (character req))"
  shows "POST E req w =
     (BatchResponse
        \<lparr>response_mode = mode req, results = rs,
         total = (if isText2Img req then length (the (prompts req)) else length (the (images req))),
         successCount = n,
         failedCount =
           int (if isText2Img req then length (the (prompts req)) else length (the (images req))) -
           int n,
         savedSeriesId = (if requested \<and> 0 < n then fst (auto_save E req rs n w1) else None)\<rparr>,
      if requested \<and> 0 < n then snd (auto_save E req rs n w1) else w1)"
  unfolding POST_valid[OF assms(1-5)] using assms(6,7,8)
  by (simp add: Let_def split: prod.splits)

text \<open>
  C3. Let a request pass the validation, let the loop end with the results \<open>rs\<close> in
  the world \<open>w1\<close>, \<open>n\<close> of them successful, and call persistence requested when
  \<open>saveToDb\<close> is set and the owner id and the character are present. Then:
  \<^item> unless persistence is requested and \<open>n > 0\<close>, the persistence phase does not
    run: the id is null and the world stays \<open>w1\<close>;
  \<^item> otherwise the categories are classified and the series row is inserted, and the
    id is that of the new row exactly when this insert succeeds. If it returns an
    error, the id is null and nothing else has happened: no upload, no scene row.
    If it succeeds, the id is returned and the series is in the table, whatever the
    uploads and the bulk insert do (nothing is assumed of them).
  So the id is null exactly when persistence was not requested, no item succeeded, or
  the insert of the series failed.
\<close>

theorem C3_aggregate_id:
  assumes "\<not> (mode req = img2img \<and> missing (images req))"
    and "\<not> ((actualMode (mode req) = text2img \<or> isPreviewMode req \<or> mode req = batch) \<and>
             missing (prompts req))"
    and "REPLICATE_API_TOKEN E" and "truthy (id_req req)"
    and "resolveReplicateModelById E (the (id_req req)) = Inr model"
    and "generate_loop E req model
           (if isText2Img req then length (the (prompts req)) else length (the (images req)))
           0 [] w = (rs, w1)"
    and "n = length (filter success rs)"
    and "requested = (saveToDb req \<and> truthy (userId req) \<and> truthy (character req))"
    and "wc = emit (GeminiCall (classify_prompt (or_else (theme req) []) (the (character req)))) w1"
    and "row = new_series_row req
                 (fst (classifyCategories E (or_else (theme req) []) (the (character req)) w1)) n"
  shows "\<exists>b w'. POST E req w = (BatchResponse b, w') \<and> results b = rs \<and> successCount b = n \<and>
           (\<not> (requested \<and> 0 < n) \<longrightarrow> savedSeriesId b = None \<and> w' = w1) \<and>
           (requested \<and> 0 < n \<longrightarrow>
              (\<forall>e. series_insert E (now wc) row = Inl e \<longrightarrow>
                 savedSeriesId b = None \<and> w' = emit (SeriesInsert row) wc \<and>
                 emoticon_scenes w' = emoticon_scenes w1 \<and>
                 filter is_StorageUpload (trace w') = filter is_StorageUpload (trace w1)) \<and>
              (\<forall>sid. series_insert E (now wc) row = Inr sid \<longrightarrow>
                 savedSeriesId b = Some sid \<and>
                 emoticon_series w' = emoticon_series w1 @ [(sid, row)])) \<and>
           (savedSeriesId b = None) =
             (\<not> requested \<or> n = 0 \<or> isl (series_insert E (now wc) row))"
proof -
  have env: "SUPABASE_ENV E" using assms(5) by (rule resolve_needs_env)
  have nw: "now wc = Suc (now w1)" using assms(9) by simp
  let ?save = "auto_save E req rs n w1"
  note P = POST_after_loop[OF assms(1-8)]
  have F: "series_insert E (now wc) row = Inl e \<Longrightarrow> ?save = (None, emit (SeriesInsert row) wc)" for e
    using auto_save_insert_failed[where E=E and w=w1 and req=req and n=n and e=e and rs=rs, OF env]
      assms(9,10) nw by simp
  have G: "series_insert E (now wc) row = Inr sid \<Longrightarrow>
           fst ?save = Some sid \<and> emoticon_series (snd ?save) = emoticon_series w1 @ [(sid, row)]" for sid
    using auto_save_created(1,2)[where E=E and w=w1 and req=req and n=n and sid=sid and rs=rs,
        OF env refl _ refl refl] assms(10) nw by simp
  have I: "requested \<and> 0 < n \<Longrightarrow> (fst ?save = None) = isl (series_insert E (now wc) row)"
    using F G by (cases "series_insert E (now wc) row") auto
  show ?thesis
    unfolding P using F G I by (auto simp: assms(9))
qed

text \<open>The loop of the scenarios, run.\<close>

lemma valid_preview:
  "\<not> (mode req_preview7 = img2img \<and> missing (images req_preview7))"
  "\<not> ((actualMode (mode req_preview7) = text2img \<or> isPreviewMode req_preview7 \<or>
        mode req_preview7 = batch) \<and> missing (prompts req_preview7))"
  "truthy (id_req req_preview7)"
  "\<not> (mode req_preview1 = img2img \<and> missing (images req_preview1))"
  "\<not> ((actualMode (mode req_preview1) = text2img \<or> isPreviewMode req_preview1 \<or>
        mode req_preview1 = batch) \<and> missing (prompts req_preview1))"
  "truthy (id_req req_preview1)"
  by (simp_all add: req_preview7_def req_preview1_def missing_def truthy_def)

lemma requested_preview:
  "saveToDb req_preview7 \<and> truthy (userId req_preview7) \<and> truthy (character req_preview7)"
  "saveToDb req_preview1 \<and> truthy (userId req_preview1) \<and> truthy (character req_preview1)"
  by (simp_all add: req_preview7_def req_preview1_def truthy_def)

lemma loop_preview7:
  "generate_loop env_property6 req_preview7 ''owner/model''
     (if isText2Img req_preview7 then length (the (prompts req_preview7))
      else length (the (images req_preview7))) 0 [] world0 =
   ([preview_result 0 ''p0'' True, preview_result 1 ''p1'' True,
     preview_result 2 ''p2'' False, preview_result 3 ''p3'' True,
     preview_result 4 ''p4'' True, preview_result 5 ''p5'' False,
     preview_result 6 ''p6'' True],
    snd (generate_loop env_property6 req_preview7 ''owner/model'' 7 0 [] world0))"
  "now (snd (generate_loop env_property6 req_preview7 ''owner/model'' 7 0 [] world0)) = 27"
  "emoticon_scenes (snd (generate_loop env_property6 req_preview7 ''owner/model'' 7 0 [] world0)) = []"
  "filter is_StorageUpload
     (trace (snd (generate_loop env_property6 req_preview7 ''owner/model'' 7 0 [] world0))) = []"
  by (simp_all add: generate_loop_step generate_loop_done item_defs req_preview7_def
        env_property6_def env_base_def world0_def preview_result_def prod_eq_iff)

lemma loop_preview1:
  assumes "replicate_run E = replicate_run env_base"
    and "generateContent E = generateContent env_base"
    and "fetch_resize_png E = fetch_resize_png env_base"
  shows "generate_loop E req_preview1 ''owner/model''
     (if isText2Img req_preview1 then length (the (prompts req_preview1))
      else length (the (images req_preview1))) 0 [] world0 =
   ([preview_result 0 ''wave'' True],
    snd (generate_loop E req_preview1 ''owner/model'' 1 0 [] world0))"
  and "emoticon_scenes (snd (generate_loop E req_preview1 ''owner/model'' 1 0 [] world0)) = []"
  and "filter is_StorageUpload
     (trace (snd (generate_loop E req_preview1 ''owner/model'' 1 0 [] world0))) = []"
  by (simp_all add: generate_loop_step generate_loop_done item_defs req_preview1_def assms
        env_base_def world0_def preview_result_def prod_eq_iff)

text \<open>
  The claim on four concrete runs: persistence not requested; requested, and the insert
  of the series fails; requested, the series is inserted and one upload fails;
  requested, the series is inserted and the bulk insert fails.
\<close>

theorem C3_aggregate_id_witness:
  "saved_id_of (fst (POST env_stage2_throws req_text3 world0)) = None \<and>
   saved_id_of (fst (POST env_insert_fails req_preview1 world0)) = None \<and>
   emoticon_scenes (snd (POST env_insert_fails req_preview1 world0)) = [] \<and>
   filter is_StorageUpload (trace (snd (POST env_insert_fails req_preview1 world0))) = [] \<and>
   saved_id_of (fst (POST env_property6 req_preview7 world0)) = Some ''series-1'' \<and>
   saved_id_of (fst (POST env_bulk_fails req_preview1 world0)) = Some ''series-1''"
proof -
  have 1: "saved_id_of (fst (POST env_stage2_throws req_text3 world0)) = None"
  proof -
    have v: "\<not> (mode req_text3 = img2img \<and> missing (images req_text3))"
      "\<not> ((actualMode (mode req_text3) = text2img \<or> isPreviewMode req_text3 \<or>
            mode req_text3 = batch) \<and> missing (prompts req_text3))"
      "REPLICATE_API_TOKEN env_stage2_throws" "truthy (id_req req_text3)"
      by (simp_all add: req_text3_def env_stage2_throws_def env_base_def missing_def truthy_def)
    have r: "resolveReplicateModelById env_stage2_throws (the (id_req req_text3)) =
             Inr ''owner/model''"
      by (simp add: req_text3_def resolve_base env_stage2_throws_def env_base_def)
    have q: "\<not> (saveToDb req_text3 \<and> truthy (userId req_text3) \<and> truthy (character req_text3))"
      by (simp add: req_text3_def)
    from C3_aggregate_id[OF v r surjective_pairing refl refl refl refl, of world0] q
    show ?thesis by auto
  qed
  have 2: "saved_id_of (fst (POST env_insert_fails req_preview1 world0)) = None \<and>
           emoticon_scenes (snd (POST env_insert_fails req_preview1 world0)) = [] \<and>
           filter is_StorageUpload (trace (snd (POST env_insert_fails req_preview1 world0))) = []"
  proof -
    have t: "REPLICATE_API_TOKEN env_insert_fails" by (simp add: env_insert_fails_def env_base_def)
    have r: "resolveReplicateModelById env_insert_fails (the (id_req req_preview1)) =
             Inr ''owner/model''"
      by (simp add: req_preview1_def resolve_base env_insert_fails_def env_base_def)
    have e: "replicate_run env_insert_fails = replicate_run env_base"
      "generateContent env_insert_fails = generateContent env_base"
      "fetch_resize_png env_insert_fails = fetch_resize_png env_base"
      by (simp_all add: env_insert_fails_def)
    note L = loop_preview1[OF e]
    have n: "0 < length (filter success [preview_result 0 ''wave'' True])"
      by (simp add: preview_result_def)
    have f: "series_insert env_insert_fails t row = Inl ''permission denied''" for t row
      by (simp add: env_insert_fails_def)
    from C3_aggregate_id[OF valid_preview(4,5) t valid_preview(6) r L(1) refl refl refl refl]
      requested_preview(2) n f L(2,3)
    show ?thesis by auto
  qed
  have 3: "saved_id_of (fst (POST env_property6 req_preview7 world0)) = Some ''series-1''"
  proof -
    have t: "REPLICATE_API_TOKEN env_property6" by (simp add: env_property6_def env_base_def)
    have r: "resolveReplicateModelById env_property6 (the (id_req req_preview7)) =
             Inr ''owner/model''"
      by (simp add: req_preview7_def resolve_base env_property6_def env_base_def)
    have n: "0 < length (filter success
               [preview_result 0 ''p0'' True, preview_result 1 ''p1'' True,
                preview_result 2 ''p2'' False, preview_result 3 ''p3'' True,
                preview_result 4 ''p4'' True, preview_result 5 ''p5'' False,
                preview_result 6 ''p6'' True])"
      by (simp add: preview_result_def)
    have f: "series_insert env_property6 t row = Inr ''series-1''" for t row
      by (simp add: env_property6_def env_base_def)
    from C3_aggregate_id[OF valid_preview(1,2) t valid_preview(3) r loop_preview7(1)
           refl refl refl refl]
      requested_preview(1) n f
    show ?thesis by auto
  qed
  have 4: "saved_id_of (fst (POST env_bulk_fails req_preview1 world0)) = Some ''series-1''"
  proof -
    have t: "REPLICATE_API_TOKEN env_bulk_fails" by (simp add: env_bulk_fails_def env_base_def)
    have r: "resolveReplicateModelById env_bulk_fails (the (id_req req_preview1)) =
             Inr ''owner/model''"
      by (simp add: req_preview1_def resolve_base env_bulk_fails_def env_base_def)
    have e: "replicate_run env_bulk_fails = replicate_run env_base"
      "generateContent env_bulk_fails = generateContent env_base"
      "fetch_resize_png env_bulk_fails = fetch_resize_png env_base"
      by (simp_all add: env_bulk_fails_def)
    note L = loop_preview1[OF e]
    have n: "0 < length (filter success [preview_result 0 ''wave'' True])"
      by (simp add: preview_result_def)
    have f: "series_insert env_bulk_fails t row = Inr ''series-1''" for t row
      by (simp add: env_bulk_fails_def env_base_def)
    from C3_aggregate_id[OF valid_preview(4,5) t valid_preview(6) r L(1) refl refl refl refl]
      requested_preview(2) n f
    show ?thesis by auto
  qed
  from 1 2 3 4 show ?thesis by simp
qed

text \<open>
  C4. Let the series have been inserted with the id \<open>sid\<close>. Let \<open>S\<close> be the results
  that are successful and have normalized image data, in their order; the upload of
  the \<open>k\<close>-th of them is started two calls (the classification, the insert of the
  series) and \<open>k\<close> uploads after the start of the phase. Then every result in \<open>S\<close>
  is uploaded, and the records \<open>recs\<close> handed to the bulk insert are, up to their
  order, the records of exactly those results in \<open>S\<close> whose upload succeeded, each
  with the series id \<open>sid\<close> and the index of its result as scene number. There is one
  bulk insert, and none when \<open>recs\<close> is empty; when it succeeds, \<open>recs\<close> are the rows
  added to the table of scenes. The id \<open>sid\<close> is returned in every case. (The model
  collects the records in the order of \<open>S\<close>; the route collects them as the uploads
  finish, so only their multiset is stated.)
\<close>

theorem C4_children_of_uploaded:
  assumes "SUPABASE_ENV E"
    and "series_insert E (Suc (now w))
           (new_series_row req
              (fst (classifyCategories E (or_else (theme req) []) (the (character req)) w)) n) =
         Inr sid"
    and "S = filter (\<lambda>r. success r \<and> truthy (transparentDataUrl r)) rs"
    and "uploaded =
           filter (\<lambda>((r, idx), t). upload_succeeds E sid r t)
             (zip (zip S [0..<length S]) [now w + 2..<now w + 2 + length S])"
  shows "\<exists>recs.
           mset recs = mset (map (\<lambda>((r, idx), t). scene_row E req sid r idx) uploaded) \<and>
           mset (map scene_number recs) = mset (map (\<lambda>((r, idx), t). index r) uploaded) \<and>
           list_all (\<lambda>c. series_id c = sid) recs \<and>
           fst (auto_save E req rs n w) = Some sid \<and>
           length (filter is_StorageUpload (trace (snd (auto_save E req rs n w)))) =
             length S + length (filter is_StorageUpload (trace w)) \<and>
           filter is_ScenesInsert (trace (snd (auto_save E req rs n w))) =
             (if recs \<noteq> [] then [ScenesInsert recs] else []) @
             filter is_ScenesInsert (trace w) \<and>
           emoticon_scenes (snd (auto_save E req rs n w)) =
             emoticon_scenes w @
             (if scenes_insert E (now w + 2 + length S) recs then [] else recs)"
proof -
  let ?recs = "map (\<lambda>((r, idx), t). scene_row E req sid r idx) uploaded"
  have a: "map scene_number ?recs = map (\<lambda>((r, idx), t). index r) uploaded"
    by (auto simp: scene_row_def)
  have b: "list_all (\<lambda>c. series_id c = sid) ?recs"
    by (auto simp: list_all_iff scene_row_def)
  have R: "?recs = map (\<lambda>((r, idx), t). scene_row E req sid r idx)
                    (filter (\<lambda>((r, idx), t). upload_succeeds E sid r t)
                       (zip (zip S [0..<length S]) [now w + 2..<now w + 2 + length S]))"
    using assms(4) by simp
  note c = auto_save_created[where rs=rs, OF assms(1) refl assms(2) assms(3) R]
  show ?thesis
    by (intro exI[of _ ?recs] conjI refl arg_cong[where f=mset, OF a] b c)
qed

text \<open>
  The scenario of a batch of seven: every synthesis succeeds, the conversion fails for
  two items, so five items are uploaded; one of the five uploads fails. The series
  id is returned and the series has exactly four scenes, those of the items 0, 1, 4
  and 6.
\<close>

theorem C4_children_of_uploaded_witness:
  "saved_id_of (fst (POST env_property6 req_preview7 world0)) = Some ''series-1'' \<and>
   map success (results_of (fst (POST env_property6 req_preview7 world0))) =
     [True, True, True, True, True, True, True] \<and>
   map (\<lambda>r. truthy (transparentDataUrl r))
     (results_of (fst (POST env_property6 req_preview7 world0))) =
     [True, True, False, True, True, False, True] \<and>
   length (filter is_StorageUpload (trace (snd (POST env_property6 req_preview7 world0)))) = 5 \<and>
   length (emoticon_scenes (snd (POST env_property6 req_preview7 world0))) = 4 \<and>
   mset (map scene_number (emoticon_scenes (snd (POST env_property6 req_preview7 world0)))) =
     mset [0, 1, 4, 6] \<and>
   list_all (\<lambda>c. series_id c = ''series-1'')
     (emoticon_scenes (snd (POST env_property6 req_preview7 world0)))"
proof -
  let ?rs = "[preview_result 0 ''p0'' True, preview_result 1 ''p1'' True,
              preview_result 2 ''p2'' False, preview_result 3 ''p3'' True,
              preview_result 4 ''p4'' True, preview_result 5 ''p5'' False,
              preview_result 6 ''p6'' True]"
  let ?w1 = "snd (generate_loop env_property6 req_preview7 ''owner/model'' 7 0 [] world0)"
  let ?S = "[preview_result 0 ''p0'' True, preview_result 1 ''p1'' True,
             preview_result 3 ''p3'' True, preview_result 4 ''p4'' True,
             preview_result 6 ''p6'' True]"
  let ?up = "[((preview_result 0 ''p0'' True, 0::nat), 29::nat),
              ((preview_result 1 ''p1'' True, 1), 30),
              ((preview_result 4 ''p4'' True, 3), 32),
              ((preview_result 6 ''p6'' True, 4), 33)]"
  let ?save = "auto_save env_property6 req_preview7 ?rs 7 ?w1"
  have t: "REPLICATE_API_TOKEN env_property6" and env: "SUPABASE_ENV env_property6"
    by (simp_all add: env_property6_def env_base_def)
  have r: "resolveReplicateModelById env_property6 (the (id_req req_preview7)) =
           Inr ''owner/model''"
    by (simp add: req_preview7_def resolve_base env_property6_def env_base_def)
  have n: "length (filter success ?rs) = 7" by (simp add: preview_result_def)
  have P: "POST env_property6 req_preview7 world0 =
     (BatchResponse
        \<lparr>response_mode = mode req_preview7, results = ?rs,
         total = (if isText2Img req_preview7 then length (the (prompts req_preview7))
                  else length (the (images req_preview7))),
         successCount = 7,
         failedCount =
           int (if isText2Img req_preview7 then length (the (prompts req_preview7))
                else length (the (images req_preview7))) - int 7,
         savedSeriesId = fst ?save\<rparr>, snd ?save)"
    using POST_after_loop[OF valid_preview(1,2) t valid_preview(3) r loop_preview7(1) n[symmetric] refl]
      requested_preview(1) by simp
  have f: "series_insert env_property6 (Suc (now ?w1))
             (new_series_row req_preview7
                (fst (classifyCategories env_property6 (or_else (theme req_preview7) [])
                        (the (character req_preview7)) ?w1)) 7) = Inr ''series-1''"
    by (simp add: env_property6_def env_base_def)
  have S: "?S = filter (\<lambda>r. success r \<and> truthy (transparentDataUrl r)) ?rs"
    by (simp add: preview_result_def truthy_def)
  have U: "upload_succeeds env_property6 sid x k = (k \<noteq> 31)" for sid x k
    by (simp add: upload_succeeds_def env_property6_def)
  have up: "?up = filter (\<lambda>((r, idx), t). upload_succeeds env_property6 ''series-1'' r t)
                    (zip (zip ?S [0..<length ?S]) [now ?w1 + 2..<now ?w1 + 2 + length ?S])"
    by (simp add: U loop_preview7(2) upt_rec)
  from C4_children_of_uploaded[OF env f S up]
  obtain recs where m: "mset recs =
        mset (map (\<lambda>((r, idx), t). scene_row env_property6 req_preview7 ''series-1'' r idx) ?up)"
    and sn: "mset (map scene_number recs) = mset (map (\<lambda>((r, idx), t). index r) ?up)"
    and sid: "list_all (\<lambda>c. series_id c = ''series-1'') recs"
    and id: "fst ?save = Some ''series-1''"
    and ul: "length (filter is_StorageUpload (trace (snd ?save))) =
             length ?S + length (filter is_StorageUpload (trace ?w1))"
    and sc: "emoticon_scenes (snd ?save) =
             emoticon_scenes ?w1 @
             (if scenes_insert env_property6 (now ?w1 + 2 + length ?S) recs then [] else recs)"
    by blast
  have si: "scenes_insert env_property6 k cs = False" for k cs
    by (simp add: env_property6_def env_base_def)
  from sc have sc': "emoticon_scenes (snd ?save) = recs"
    by (simp add: loop_preview7(3) si)
  from m have "length recs = length (map (\<lambda>((r, idx), t).
                  scene_row env_property6 req_preview7 ''series-1'' r idx) ?up)"
    by (rule mset_eq_length)
  then have len: "length recs = 4" by simp
  from sn have sn': "mset (map scene_number recs) = mset [0, 1, 4, 6]"
    by (simp add: preview_result_def)
  have ul': "length (filter is_StorageUpload (trace (snd ?save))) = 5"
    using ul by (simp add: loop_preview7(4))
  show ?thesis
    unfolding P using id sc' len sn' sid ul' by (simp add: preview_result_def truthy_def)
qed

section \<open>The save route\<close>







section \<open>The cache over a whole request\<close>

lemma settled_emit:
  "e \<noteq> GeminiCall (translate_prompt s) \<Longrightarrow>
   cache_settled s v c (emit e w) = cache_settled s v c w"
  by (simp add: cache_settled_def)

lemma settled_update [simp]:
  "cache_settled s v c (w\<lparr>images_bucket := b\<rparr>) = cache_settled s v c w"
  "cache_settled s v c (w\<lparr>emoticon_series := x\<rparr>) = cache_settled s v c w"
  "cache_settled s v c (w\<lparr>emoticon_scenes := y\<rparr>) = cache_settled s v c w"
  by (simp_all add: cache_settled_def)

lemma settled_translate:
  "translateToEnglish E s' w = (r, w') \<Longrightarrow> cache_settled s v c w \<Longrightarrow> cache_settled s v c w'"
  using translate_stable[of w s v E s'] by (simp add: cache_settled_def)

text \<open>A classification is never mistaken for a translation: the two prompts differ.\<close>

lemma classify_not_translate: "classify_prompt th ch \<noteq> translate_prompt s"
  by (simp add: classify_prompt_def translate_prompt_def)

lemma settled_text2img:
  "text2img_input E req i w = (r, w') \<Longrightarrow> cache_settled s v c w \<Longrightarrow> cache_settled s v c w'"
  by (auto simp: text2img_input_def Let_def split: prod.splits if_splits
           dest: settled_translate)

lemma settled_img2img:
  "img2img_input E req i w = (r, w') \<Longrightarrow> cache_settled s v c w \<Longrightarrow> cache_settled s v c w'"
  by (auto simp: img2img_input_def Let_def split: prod.splits if_splits
           dest: settled_translate)

lemma settled_step1:
  "step1 E model inp w = (r, w') \<Longrightarrow> cache_settled s v c w \<Longrightarrow> cache_settled s v c w'"
  by (auto simp: step1_def Let_def settled_emit split: sum.splits if_splits)

lemma settled_step2:
  "step2 E model inp u w = (r, w') \<Longrightarrow> cache_settled s v c w \<Longrightarrow> cache_settled s v c w'"
  by (auto simp: step2_def Let_def settled_emit split: sum.splits if_splits)

lemma settled_png:
  "png_convert E u w = (r, w') \<Longrightarrow> cache_settled s v c w \<Longrightarrow> cache_settled s v c w'"
  by (auto simp: png_convert_def Let_def settled_emit split: sum.splits if_splits)

lemma settled_synthesize:
  "synthesize E req model i w = (r, w') \<Longrightarrow> cache_settled s v c w \<Longrightarrow> cache_settled s v c w'"
  by (auto simp: synthesize_def Let_def split: prod.splits sum.splits if_splits
           dest: settled_text2img settled_img2img settled_step1 settled_step2)

lemma settled_item:
  "generate_item E req model i w = (r, w') \<Longrightarrow> cache_settled s v c w \<Longrightarrow> cache_settled s v c w'"
  by (auto simp: generate_item_def generate_try_def Let_def split: prod.splits sum.splits
           dest: settled_synthesize settled_png)

lemma settled_loop:
  "generate_loop E req model n i rs w = (rs', w') \<Longrightarrow> cache_settled s v c w \<Longrightarrow>
   cache_settled s v c w'"
proof (induction "n - i" arbitrary: i rs w)
  case 0
  then show ?case by (simp add: generate_loop_done)
next
  case (Suc d)
  then have lt: "i < n" by simp
  obtain r w1 where g: "generate_item E req model i w = (r, w1)"
    by (cases "generate_item E req model i w")
  from settled_item[OF g Suc.prems(2)] have k: "cache_settled s v c w1" .
  let ?w2 = "if i < n - 1 then emit (Sleep (if isPreviewMode req then 2000 else 15000)) w1
             else w1"
  have k2: "cache_settled s v c ?w2" using k by (simp add: settled_emit)
  have "generate_loop E req model n (Suc i) (rs @ [r]) ?w2 = (rs', w')"
    using Suc.prems(1) unfolding generate_loop_step[OF lt] g fst_conv snd_conv .
  from Suc.hyps(1)[OF _ this k2] Suc.hyps(2) show ?case by simp
qed

lemma settled_save_scene:
  "cache_settled s v c (snd (save_scene E req sid r idx w)) = cache_settled s v c w"
  by (simp add: save_scene_def Let_def settled_emit split: option.splits sum.splits)

lemma settled_upload_all:
  "cache_settled s v c (snd (upload_all E req sid items w)) = cache_settled s v c w"
proof (induction items arbitrary: w)
  case Nil
  then show ?case by simp
next
  case (Cons a items)
  obtain r idx where a: "a = (r, idx)" by (cases a)
  have "snd (upload_all E req sid (a # items) w) =
        snd (upload_all E req sid items (snd (save_scene E req sid r idx w)))"
    using a by (simp add: case_prod_beta)
  then show ?case using Cons.IH settled_save_scene by simp
qed

lemma settled_auto_save:
  "cache_settled s v c (snd (auto_save E req rs n w)) = cache_settled s v c w"
  by (simp add: auto_save_def Let_def case_prod_beta classify_world settled_emit
        classify_not_translate settled_upload_all split: sum.splits)

lemma settled_POST:
  "cache_settled s v c w \<Longrightarrow> cache_settled s v c (snd (POST E req w))"
  by (auto simp: POST_def Let_def case_prod_beta settled_auto_save split: sum.splits
           intro: settled_loop[OF surjective_pairing])

text \<open>
  C5, as the claim states it: the language service is invoked at most once per distinct
  source text. It fails where the service fails: nothing is cached then, and the next
  call with the same text asks the service again. Here the service is down and the
  same text is translated twice; the service has been asked twice about it.
\<close>

theorem C5_counterexample:
  "count_list
     (trace (snd (translateToEnglish env_base ''neko''
                    (snd (translateToEnglish env_base ''neko'' world0)))))
     (GeminiCall (translate_prompt ''neko'')) = 2"
  by (simp add: translateToEnglish_def translate_try_def env_base_def world0_def emit_def
        now_def)

text \<open>
  C5, amended: the cache saves the call once a call has succeeded. A translate call for
  a text that is in the cache returns the cached value and leaves the world as it was
  (no external call). A call for a text that is not in the cache asks the service
  once; if the service answers, the answer is returned and cached, so that any later
  call with the same text (under any services) returns it without a new call. If the
  service fails, the text itself is returned and nothing is cached. A cached text
  stays cached with its value through every later translate call and through every
  later request that the route handles, and the service is not asked about it again.
\<close>

theorem C5_translation_cache:
  "(translationCache w s = Some v \<longrightarrow> translateToEnglish E s w = (v, w)) \<and>
   (translationCache w s = None \<and> generateContent E (now w) (translate_prompt s) = Inr v \<longrightarrow>
      fst (translateToEnglish E s w) = v \<and>
      trace (snd (translateToEnglish E s w)) = GeminiCall (translate_prompt s) # trace w \<and>
      translateToEnglish E' s (snd (translateToEnglish E s w)) =
        (v, snd (translateToEnglish E s w))) \<and>
   (translationCache w s = None \<and> generateContent E (now w) (translate_prompt s) = Inl e \<longrightarrow>
      fst (translateToEnglish E s w) = s \<and>
      trace (snd (translateToEnglish E s w)) = GeminiCall (translate_prompt s) # trace w \<and>
      translationCache (snd (translateToEnglish E s w)) = translationCache w) \<and>
   (translationCache w s = Some v \<longrightarrow>
      translationCache (snd (translateToEnglish E s' w)) s = Some v \<and>
      count_list (trace (snd (translateToEnglish E s' w))) (GeminiCall (translate_prompt s)) =
      count_list (trace w) (GeminiCall (translate_prompt s))) \<and>
   (translationCache w s = Some v \<longrightarrow>
      translationCache (snd (POST E req w)) s = Some v \<and>
      count_list (trace (snd (POST E req w))) (GeminiCall (translate_prompt s)) =
      count_list (trace w) (GeminiCall (translate_prompt s)))"
proof (intro conjI impI)
  assume "translationCache w s = Some v"
  then show "translateToEnglish E s w = (v, w)" by (rule translate_hit)
next
  assume a: "translationCache w s = None \<and> generateContent E (now w) (translate_prompt s) = Inr v"
  then have r: "translateToEnglish E s w =
     (v, (emit (GeminiCall (translate_prompt s)) w)
           \<lparr>translationCache := (translationCache w)(s \<mapsto> v)\<rparr>)"
    by (simp add: translate_miss_ok)
  show "fst (translateToEnglish E s w) = v" by (simp add: r)
  show "trace (snd (translateToEnglish E s w)) = GeminiCall (translate_prompt s) # trace w"
    by (simp add: r)
  show "translateToEnglish E' s (snd (translateToEnglish E s w)) =
        (v, snd (translateToEnglish E s w))"
    by (rule translate_hit) (simp add: r)
next
  assume a: "translationCache w s = None \<and> generateContent E (now w) (translate_prompt s) = Inl e"
  then have r: "translateToEnglish E s w = (s, emit (GeminiCall (translate_prompt s)) w)"
    by (simp add: translate_miss_fail)
  show "fst (translateToEnglish E s w) = s" by (simp add: r)
  show "trace (snd (translateToEnglish E s w)) = GeminiCall (translate_prompt s) # trace w"
    by (simp add: r)
  show "translationCache (snd (translateToEnglish E s w)) = translationCache w"
    by (simp add: r)
next
  assume a: "translationCache w s = Some v"
  from translate_stable[OF a, of E s']
  show "translationCache (snd (translateToEnglish E s' w)) s = Some v"
    and "count_list (trace (snd (translateToEnglish E s' w))) (GeminiCall (translate_prompt s)) =
         count_list (trace w) (GeminiCall (translate_prompt s))"
    by simp_all
  from a have "cache_settled s v (count_list (trace w) (GeminiCall (translate_prompt s))) w"
    by (simp add: cache_settled_def)
  then have "cache_settled s v (count_list (trace w) (GeminiCall (translate_prompt s)))
               (snd (POST E req w))"
    by (rule settled_POST)
  then show "translationCache (snd (POST E req w)) s = Some v"
    and "count_list (trace (snd (POST E req w))) (GeminiCall (translate_prompt s)) =
         count_list (trace w) (GeminiCall (translate_prompt s))"
    by (simp_all add: cache_settled_def)
qed

text \<open>
  The amended claim on the two worlds it tells apart: the service translates \<open>neko\<close>
  once and the second call is served from the cache, under a service that is down by
  then; the service is down from the start and the text comes back untranslated.
\<close>

theorem C5_translation_cache_witness:
  "fst (translateToEnglish env_translates ''neko'' world0) = ''a white cat waving'' \<and>
   translateToEnglish env_base ''neko'' (snd (translateToEnglish env_translates ''neko'' world0)) =
     (''a white cat waving'', snd (translateToEnglish env_translates ''neko'' world0)) \<and>
   trace (snd (translateToEnglish env_translates ''neko'' world0)) =
     [GeminiCall (translate_prompt ''neko'')] \<and>
   fst (translateToEnglish env_base ''neko'' world0) = ''neko'' \<and>
   translationCache (snd (translateToEnglish env_base ''neko'' world0)) = translationCache world0"
proof -
  have c: "translationCache world0 ''neko'' = None" by (simp add: world0_def)
  have ok: "generateContent env_translates (now world0) (translate_prompt ''neko'') =
            Inr ''a white cat waving''"
    by (simp add: env_translates_def env_base_def)
  have down: "generateContent env_base (now world0) (translate_prompt ''neko'') =
              Inl ''503 Service Unavailable''"
    by (simp add: env_base_def)
  have t0: "trace world0 = []" by (simp add: world0_def)
  from C5_translation_cache[where w=world0 and s="''neko''" and v="''a white cat waving''"
         and E=env_translates and E'=env_base]
    C5_translation_cache[where w=world0 and s="''neko''" and E=env_base
         and e="''503 Service Unavailable''"]
    c ok down t0
  show ?thesis by simp
qed


end
